theory Spec2Isabelle
  imports Complex_Main "HOL-Library.Log_Nat"
begin

section \<open>Python values used by \<open>main.py\<close>\<close>

subsection \<open>Floats\<close>

text \<open>
  Every balance, amount and price of \<open>main.py\<close> is a Python \<open>float\<close>, an IEEE 754
  binary64 number. A float is modelled by its value: a finite real number, one of the two
  infinities, or NaN. The sign of zero is not kept: no comparison of the program can
  tell \<open>0.0\<close> from \<open>-0.0\<close>.
\<close>

datatype pyfloat = Fin real | PInf | NInf | NaN

text \<open>Rounding to the nearest integer, ties to the even one.\<close>

definition round_half_even :: "real \<Rightarrow> int" where
  "round_half_even x =
     (let f = \<lfloor>x\<rfloor>; d = x - of_int f
      in if d < 1 / 2 then f
         else if 1 / 2 < d then f + 1
         else if even f then f else f + 1)"

text \<open>\<open>ilog2 a\<close> is the binary exponent of a positive number: \<open>2 ^ e \<le> a < 2 ^ (e + 1)\<close>.\<close>

definition ilog2 :: "real \<Rightarrow> int" where
  "ilog2 a = (if 1 \<le> a then bitlen \<lfloor>a\<rfloor> - 1 else - bitlen (\<lceil>1 / a\<rceil> - 1))"

text \<open>
  \<open>round64 x\<close> is the binary64 number nearest to \<open>x\<close> (ties to even): 53 significant
  bits, the spacing of the subnormal numbers \<open>2 ^ -1074\<close> below \<open>2 ^ -1022\<close>, and an
  infinity once the rounded magnitude reaches \<open>2 ^ 1024\<close>.
\<close>

definition round64 :: "real \<Rightarrow> pyfloat" where
  "round64 x =
     (if x = 0 then Fin 0
      else
        let a = \<bar>x\<bar>;
            e = max (ilog2 a) (- 1022);
            q = 2 powi (e - 52);
            r = of_int (round_half_even (a / q)) * q
        in if 2 ^ 1024 \<le> r then (if x < 0 then NInf else PInf)
           else Fin (if x < 0 then - r else r))"

text \<open>The exceptions of Python that the modelled code can raise.\<close>

datatype py_error =
  ZeroDivisionError | TypeError | OverflowError | KeyError | ValueError | IndexError

text \<open>Comparisons: every comparison with NaN is false.\<close>

fun py_lt :: "pyfloat \<Rightarrow> pyfloat \<Rightarrow> bool" where
  "py_lt (Fin a) (Fin b) = (a < b)"
| "py_lt NaN _ = False"
| "py_lt _ NaN = False"
| "py_lt _ NInf = False"
| "py_lt PInf _ = False"
| "py_lt NInf _ = True"
| "py_lt _ PInf = True"

definition py_eq :: "pyfloat \<Rightarrow> pyfloat \<Rightarrow> bool" where
  "py_eq a b = (a \<noteq> NaN \<and> a = b)"

definition py_le :: "pyfloat \<Rightarrow> pyfloat \<Rightarrow> bool" where
  "py_le a b = (py_lt a b \<or> py_eq a b)"

definition py_gt :: "pyfloat \<Rightarrow> pyfloat \<Rightarrow> bool" where
  "py_gt a b = py_lt b a"

text \<open>Arithmetic. \<open>+\<close>, \<open>-\<close> and \<open>*\<close> never raise; an overflow gives an infinity.\<close>

fun py_neg :: "pyfloat \<Rightarrow> pyfloat" where
  "py_neg (Fin a) = Fin (- a)"
| "py_neg PInf = NInf"
| "py_neg NInf = PInf"
| "py_neg NaN = NaN"

fun py_add :: "pyfloat \<Rightarrow> pyfloat \<Rightarrow> pyfloat" where
  "py_add (Fin a) (Fin b) = round64 (a + b)"
| "py_add NaN _ = NaN"
| "py_add _ NaN = NaN"
| "py_add PInf NInf = NaN"
| "py_add NInf PInf = NaN"
| "py_add PInf _ = PInf"
| "py_add NInf _ = NInf"
| "py_add _ PInf = PInf"
| "py_add _ NInf = NInf"

definition py_sub :: "pyfloat \<Rightarrow> pyfloat \<Rightarrow> pyfloat" where
  "py_sub a b = py_add a (py_neg b)"

text \<open>The product of an infinity and a float of the given finite value or sign.\<close>

definition inf_times :: "bool \<Rightarrow> pyfloat \<Rightarrow> pyfloat" where
  "inf_times positive b =
     (if b = NaN \<or> b = Fin 0 then NaN
      else if py_lt (Fin 0) b = positive then PInf else NInf)"

fun py_mul :: "pyfloat \<Rightarrow> pyfloat \<Rightarrow> pyfloat" where
  "py_mul (Fin a) (Fin b) = round64 (a * b)"
| "py_mul NaN _ = NaN"
| "py_mul _ NaN = NaN"
| "py_mul PInf b = inf_times True b"
| "py_mul NInf b = inf_times False b"
| "py_mul a PInf = inf_times True a"
| "py_mul a NInf = inf_times False a"

text \<open>
  True division \<open>a / b\<close>: a zero divisor raises \<open>ZeroDivisionError\<close> whatever the
  dividend is; otherwise the IEEE quotient.
\<close>

fun py_truediv :: "pyfloat \<Rightarrow> pyfloat \<Rightarrow> py_error + pyfloat" where
  "py_truediv a (Fin b) =
     (if b = 0 then Inl ZeroDivisionError
      else case a of
        Fin x \<Rightarrow> Inr (round64 (x / b))
      | NaN \<Rightarrow> Inr NaN
      | PInf \<Rightarrow> Inr (if 0 < b then PInf else NInf)
      | NInf \<Rightarrow> Inr (if 0 < b then NInf else PInf))"
| "py_truediv a NaN = Inr NaN"
| "py_truediv (Fin x) _ = Inr (Fin 0)"
| "py_truediv _ _ = Inr NaN"

section \<open>The price cell\<close>

text \<open>
  The module-level variable \<open>latest_btc_price\<close> is \<open>None\<close> until the first tick
  and a float afterwards. The functions below take its current value as an argument;
  \<open>get_current_btc_price\<close> returns it as it is.
\<close>

definition get_current_btc_price :: "pyfloat option \<Rightarrow> pyfloat option" where
  "get_current_btc_price latest_btc_price = latest_btc_price"

section \<open>The trader\<close>

text \<open>One entry of \<open>transaction_history\<close>, as \<open>record_transaction\<close> builds it.\<close>

record txn =
  txn_id :: string
  txn_type :: string
  amount_usd :: pyfloat
  btc :: pyfloat
  price_per_btc :: pyfloat
  timestamp :: string

text \<open>
  The attributes of a \<open>BitcoinPaperTrader\<close>, and the two files it writes. Here
  \<open>data_file\<close> and \<open>history_file\<close> are the contents of the files of these names
  (\<open>None\<close>: no file yet); the data file holds \<open>cash_balance\<close>, \<open>btc_balance\<close> and
  \<open>starting_total\<close>. \<open>writable\<close> tells whether opening a file for writing succeeds:
  when it does not, \<open>save_data\<close> and \<open>save_history\<close> catch the \<open>IOError\<close>, report
  it and leave the file as it was.
\<close>

record trader =
  starting_cash :: pyfloat
  starting_total :: pyfloat
  cash_balance :: pyfloat
  btc_balance :: pyfloat
  transaction_history :: "txn list"
  data_file :: "(pyfloat \<times> pyfloat \<times> pyfloat) option"
  history_file :: "txn list option"
  writable :: bool

definition save_data :: "trader \<Rightarrow> trader" where
  "save_data t =
     (if writable t
      then t\<lparr>data_file := Some (cash_balance t, btc_balance t, starting_total t)\<rparr>
      else t)"

definition save_history :: "trader \<Rightarrow> trader" where
  "save_history t =
     (if writable t then t\<lparr>history_file := Some (transaction_history t)\<rparr> else t)"

text \<open>
  \<open>uid\<close> is the text of the fresh \<open>uuid.uuid4()\<close> and \<open>now\<close> the text of
  \<open>datetime.utcnow().isoformat() + 'Z'\<close>; both come from the environment.
\<close>

definition record_transaction ::
  "trader \<Rightarrow> string \<Rightarrow> pyfloat \<Rightarrow> pyfloat \<Rightarrow> pyfloat \<Rightarrow> string \<Rightarrow> string \<Rightarrow> trader" where
  "record_transaction t ty amount btc_amount price uid now =
     save_history
       (t\<lparr>transaction_history := transaction_history t @
            [\<lparr>txn_id = uid, txn_type = ty, amount_usd = amount, btc = btc_amount,
              price_per_btc = price, timestamp = now\<rparr>]\<rparr>)"

text \<open>
  What a method reports before it returns, one constructor for each message it prints:
  \<^item> \<open>Bought\<close>, \<open>SoldAll\<close>, \<open>Sold\<close>: the three messages of a completed trade;
  \<^item> \<open>InvalidAmount\<close>: ``Amount must be greater than 0.'';
  \<^item> \<open>InsufficientCash\<close>: ``Insufficient cash balance.'';
  \<^item> \<open>PriceUnavailable\<close>: ``Cannot fetch Bitcoin price at the moment.'';
  \<^item> \<open>InvalidInput\<close>: ``Invalid input. Please enter a numerical value.'';
  \<^item> \<open>NothingToSell\<close>: ``No Bitcoin to sell.'';
  \<^item> \<open>InsufficientAsset\<close>: ``Insufficient Bitcoin balance.'';
  \<^item> \<open>InvalidSelection\<close>: ``Invalid selection. Please choose 1 or 2.'';
  \<^item> \<open>ResetDone\<close>, \<open>ResetCancelled\<close>: the two messages of \<open>reset_trader\<close>;
  \<^item> \<open>ProfitLoss total pl percent\<close>: the figures \<open>view_total_pl\<close> prints.
  A method that lets an exception escape gives \<open>Inl\<close> of that exception instead.
\<close>

datatype outcome =
  Bought | SoldAll | Sold
  | InvalidAmount | InsufficientCash | PriceUnavailable | InvalidInput
  | NothingToSell | InsufficientAsset | InvalidSelection
  | ResetDone | ResetCancelled
  | ProfitLoss pyfloat pyfloat pyfloat

text \<open>
  \<open>buy_btc\<close>. \<open>typed\<close> is the result of \<open>float(input(...))\<close>: \<open>None\<close> when the text
  is no number and \<open>float\<close> raises \<open>ValueError\<close>, which the method catches. The
  division stands in the same \<open>try\<close>, but its \<open>ZeroDivisionError\<close> is no
  \<open>ValueError\<close> and is not caught.
\<close>

definition buy_btc ::
  "trader \<Rightarrow> pyfloat option \<Rightarrow> pyfloat option \<Rightarrow> string \<Rightarrow> string
     \<Rightarrow> py_error + (outcome \<times> trader)" where
  "buy_btc t typed latest uid now =
     (case typed of
        None \<Rightarrow> Inr (InvalidInput, t)
      | Some amount \<Rightarrow>
          if py_le amount (Fin 0) then Inr (InvalidAmount, t)
          else if py_gt amount (cash_balance t) then Inr (InsufficientCash, t)
          else
            (case get_current_btc_price latest of
               None \<Rightarrow> Inr (PriceUnavailable, t)
             | Some price \<Rightarrow>
                 (case py_truediv amount price of
                    Inl e \<Rightarrow> Inl e
                  | Inr btc_bought \<Rightarrow>
                      let t1 = t\<lparr>cash_balance := py_sub (cash_balance t) amount\<rparr>;
                          t2 = t1\<lparr>btc_balance := py_add (btc_balance t1) btc_bought\<rparr>;
                          t3 = record_transaction t2 ''buy'' amount btc_bought price uid now
                      in Inr (Bought, save_data t3))))"

text \<open>
  \<open>sell_btc\<close>. \<open>sub_choice\<close> is the stripped text of the menu answer; \<open>typed\<close> is
  as in \<open>buy_btc\<close> and is read in the second branch only.
\<close>

definition sell_btc ::
  "trader \<Rightarrow> string \<Rightarrow> pyfloat option \<Rightarrow> pyfloat option \<Rightarrow> string \<Rightarrow> string
     \<Rightarrow> py_error + (outcome \<times> trader)" where
  "sell_btc t sub_choice typed latest uid now =
     (if py_eq (btc_balance t) (Fin 0) then Inr (NothingToSell, t)
      else if sub_choice = ''1'' then
        (case get_current_btc_price latest of
           None \<Rightarrow> Inr (PriceUnavailable, t)
         | Some price \<Rightarrow>
             let btc_to_sell = btc_balance t;
                 amount = py_mul btc_to_sell price;
                 t1 = t\<lparr>btc_balance := Fin 0\<rparr>;
                 t2 = t1\<lparr>cash_balance := py_add (cash_balance t1) amount\<rparr>;
                 t3 = record_transaction t2 ''sell'' amount btc_to_sell price uid now
             in Inr (SoldAll, save_data t3))
      else if sub_choice = ''2'' then
        (case typed of
           None \<Rightarrow> Inr (InvalidInput, t)
         | Some amount \<Rightarrow>
             if py_le amount (Fin 0) then Inr (InvalidAmount, t)
             else
               (case get_current_btc_price latest of
                  None \<Rightarrow> Inr (PriceUnavailable, t)
                | Some price \<Rightarrow>
                    (case py_truediv amount price of
                       Inl e \<Rightarrow> Inl e
                     | Inr btc_to_sell \<Rightarrow>
                         if py_gt btc_to_sell (btc_balance t)
                         then Inr (InsufficientAsset, t)
                         else
                           let t1 = t\<lparr>btc_balance := py_sub (btc_balance t) btc_to_sell\<rparr>;
                               t2 = t1\<lparr>cash_balance := py_add (cash_balance t1) amount\<rparr>;
                               t3 = record_transaction t2 ''sell'' amount btc_to_sell price
                                      uid now
                           in Inr (Sold, save_data t3))))
      else Inr (InvalidSelection, t))"

text \<open>\<open>view_total_pl\<close>: the valuation. It changes nothing.\<close>

definition view_total_pl :: "trader \<Rightarrow> pyfloat option \<Rightarrow> py_error + outcome" where
  "view_total_pl t latest =
     (case get_current_btc_price latest of
        None \<Rightarrow> Inr PriceUnavailable
      | Some current_price \<Rightarrow>
          let current_total = py_add (cash_balance t) (py_mul (btc_balance t) current_price);
              pl = py_sub current_total (starting_total t)
          in (case py_truediv (py_sub current_total (starting_total t)) (starting_total t) of
                Inl e \<Rightarrow> Inl e
              | Inr ratio \<Rightarrow> Inr (ProfitLoss current_total pl (py_mul ratio (Fin 100)))))"

text \<open>
  \<open>reset_trader\<close>. \<open>confirm\<close> is the answer after \<open>.strip().lower()\<close>. The data file
  is written before the history file.
\<close>

definition reset_trader :: "trader \<Rightarrow> string \<Rightarrow> outcome \<times> trader" where
  "reset_trader t confirm =
     (if confirm = ''y''
      then (ResetDone,
            save_history
              (save_data
                 (t\<lparr>cash_balance := starting_cash t, btc_balance := Fin 0,
                    transaction_history := []\<rparr>)))
      else (ResetCancelled, t))"

text \<open>
  \<open>__init__\<close> when neither file exists yet: the balances start from \<open>starting_cash\<close>
  and both files are written. (With the files present it loads them instead.)
\<close>

definition new_trader :: "pyfloat \<Rightarrow> bool \<Rightarrow> trader" where
  "new_trader cash w =
     save_history
       (save_data
          \<lparr>starting_cash = cash, starting_total = cash, cash_balance = cash,
             btc_balance = Fin 0, transaction_history = [], data_file = None,
             history_file = None, writable = w\<rparr>)"

section \<open>The feed handler\<close>

text \<open>What \<open>json.loads\<close> returns: the Python value of a JSON text.\<close>

datatype json =
  JNull | JBool bool | JInt int | JFloat pyfloat | JStr string
  | JArr "json list" | JObj "(string \<times> json) list"

definition py_bind :: "py_error + 'a \<Rightarrow> ('a \<Rightarrow> py_error + 'b) \<Rightarrow> py_error + 'b" where
  "py_bind r f = (case r of Inl e \<Rightarrow> Inl e | Inr v \<Rightarrow> f v)"

text \<open>
  \<open>x[k]\<close> for a string key: only a dict can be indexed so, and a missing key raises
  \<open>KeyError\<close>. Of a repeated key the last value is kept.
\<close>

fun py_getitem_key :: "json \<Rightarrow> string \<Rightarrow> py_error + json" where
  "py_getitem_key (JObj kvs) k =
     (case map_of (rev kvs) k of None \<Rightarrow> Inl KeyError | Some v \<Rightarrow> Inr v)"
| "py_getitem_key _ k = Inl TypeError"

text \<open>
  \<open>x[0]\<close>: the first element of a list, the first character of a string; on a dict
  it is a lookup of the key \<open>0\<close>, which no decoded JSON object has.
\<close>

fun py_getitem_0 :: "json \<Rightarrow> py_error + json" where
  "py_getitem_0 (JArr []) = Inl IndexError"
| "py_getitem_0 (JArr (x # xs)) = Inr x"
| "py_getitem_0 (JStr []) = Inl IndexError"
| "py_getitem_0 (JStr (c # cs)) = Inr (JStr [c])"
| "py_getitem_0 (JObj kvs) = Inl KeyError"
| "py_getitem_0 _ = Inl TypeError"

text \<open>
  \<open>float(x)\<close>. \<open>str_float\<close> stands for Python's reading of a string as a float
  (\<open>None\<close>: \<open>ValueError\<close>). An integer too large for a float raises
  \<open>OverflowError\<close>.
\<close>

fun py_float :: "(string \<Rightarrow> pyfloat option) \<Rightarrow> json \<Rightarrow> py_error + pyfloat" where
  "py_float str_float (JStr s) =
     (case str_float s of None \<Rightarrow> Inl ValueError | Some f \<Rightarrow> Inr f)"
| "py_float str_float (JFloat f) = Inr f"
| "py_float str_float (JInt n) =
     (case round64 (of_int n) of Fin r \<Rightarrow> Inr (Fin r) | _ \<Rightarrow> Inl OverflowError)"
| "py_float str_float (JBool b) = Inr (Fin (if b then 1 else 0))"
| "py_float str_float _ = Inl TypeError"

text \<open>
  \<open>on_message\<close>. \<open>decoded\<close> is the result of \<open>json.loads(message)\<close>, \<open>None\<close> when
  it raises \<open>JSONDecodeError\<close> (a \<open>ValueError\<close>). The result is the new value of
  \<open>latest_btc_price\<close>, or the exception that leaves the handler.
\<close>

definition on_message ::
  "(string \<Rightarrow> pyfloat option) \<Rightarrow> pyfloat option \<Rightarrow> json option
     \<Rightarrow> py_error + pyfloat option" where
  "on_message str_float latest_btc_price decoded =
     (case decoded of
        None \<Rightarrow> Inr latest_btc_price
      | Some data \<Rightarrow>
          (case data of
             JArr xs \<Rightarrow>
               if 2 \<le> length xs then
                 (let ticker_info = xs ! 1 in
                  case py_bind (py_bind (py_getitem_key ticker_info ''c'') py_getitem_0)
                         (py_float str_float) of
                    Inr latest_price \<Rightarrow> Inr (Some latest_price)
                  | Inl e \<Rightarrow>
                      if e = KeyError \<or> e = ValueError \<or> e = IndexError
                      then Inr latest_btc_price
                      else Inl e)
               else Inr latest_btc_price
           | _ \<Rightarrow> Inr latest_btc_price))"

section \<open>Facts about the float model\<close>

text \<open>\<open>ilog2\<close> is the binary exponent.\<close>

lemma ilog2_ge1:
  fixes a :: real
  assumes "1 \<le> a"
  shows "2 powi (ilog2 a) \<le> a" and "a < 2 powi (ilog2 a + 1)"
proof -
  let ?n = "\<lfloor>a\<rfloor>"
  have n: "0 < ?n" using assms by simp
  from bitlen_bounds [OF n]
  have lo: "2 ^ nat (bitlen ?n - 1) \<le> ?n" and hi: "?n < 2 ^ nat (bitlen ?n)" by auto
  have b1: "1 \<le> bitlen ?n" using n by (simp add: bitlen_alt_def)
  have e: "ilog2 a = bitlen ?n - 1" using assms by (simp add: ilog2_def)
  have "(2::real) powi (bitlen ?n - 1) = 2 ^ nat (bitlen ?n - 1)"
    using b1 by (simp add: power_int_def)
  also have "\<dots> = of_int (2 ^ nat (bitlen ?n - 1))" by simp
  also have "\<dots> \<le> of_int ?n" using lo by (simp only: of_int_le_iff)
  also have "\<dots> \<le> a" by simp
  finally show "2 powi (ilog2 a) \<le> a" by (simp add: e)
  have "?n + 1 \<le> 2 ^ nat (bitlen ?n)" using hi by simp
  then have "(of_int (?n + 1) :: real) \<le> of_int (2 ^ nat (bitlen ?n))"
    by (simp only: of_int_le_iff)
  moreover have "a < of_int (?n + 1)" using floor_correct [of a] by simp
  ultimately have "a < of_int (2 ^ nat (bitlen ?n))" by linarith
  also have "\<dots> = 2 powi (bitlen ?n)" using b1 by (simp add: power_int_def)
  finally show "a < 2 powi (ilog2 a + 1)" by (simp add: e)
qed

lemma ilog2_lt1:
  fixes a :: real
  assumes "0 < a" "a < 1"
  shows "2 powi (ilog2 a) \<le> a" and "a < 2 powi (ilog2 a + 1)"
proof -
  let ?m = "\<lceil>1 / a\<rceil> - 1"
  have "1 < 1 / a" using assms by simp
  then have m: "0 < ?m" by simp
  from bitlen_bounds [OF m]
  have lo: "2 ^ nat (bitlen ?m - 1) \<le> ?m" and hi: "?m < 2 ^ nat (bitlen ?m)" by auto
  have b1: "1 \<le> bitlen ?m" using m by (simp add: bitlen_alt_def)
  have e: "ilog2 a = - bitlen ?m" using assms by (simp add: ilog2_def)
  have "\<lceil>1 / a\<rceil> \<le> 2 ^ nat (bitlen ?m)" using hi by simp
  then have "of_int \<lceil>1 / a\<rceil> \<le> (2::real) ^ nat (bitlen ?m)" by simp
  moreover have "1 / a \<le> of_int \<lceil>1 / a\<rceil>" by (rule le_of_int_ceiling)
  ultimately have "1 / a \<le> 2 ^ nat (bitlen ?m)" by linarith
  then have "1 \<le> 2 ^ nat (bitlen ?m) * a"
    using assms(1) by (simp add: field_simps)
  then have "1 / 2 ^ nat (bitlen ?m) \<le> a"
    by (simp add: field_simps)
  moreover have "(2::real) powi (- bitlen ?m) = 1 / 2 ^ nat (bitlen ?m)"
    using b1 by (simp add: power_int_def field_simps)
  ultimately show "2 powi (ilog2 a) \<le> a" by (simp add: e)
  have "(of_int (2 ^ nat (bitlen ?m - 1)) :: real) \<le> of_int ?m"
    using lo by (simp only: of_int_le_iff)
  moreover have "of_int ?m < 1 / a" by simp linarith
  ultimately have "2 ^ nat (bitlen ?m - 1) < 1 / a" by simp
  then have "2 ^ nat (bitlen ?m - 1) * a < 1"
    using assms(1) by (simp add: field_simps)
  then have "a < 1 / 2 ^ nat (bitlen ?m - 1)"
    by (simp add: field_simps)
  moreover have "(2::real) powi (- bitlen ?m + 1) = 1 / 2 ^ nat (bitlen ?m - 1)"
  proof -
    have "- bitlen ?m + 1 = - int (nat (bitlen ?m - 1))" using b1 by simp
    then show ?thesis by (simp only: power_int_minus power_int_of_nat) (simp add: field_simps)
  qed
  ultimately show "a < 2 powi (ilog2 a + 1)" by (simp add: e)
qed

lemma ilog2_bounds:
  fixes a :: real
  assumes "0 < a"
  shows "2 powi (ilog2 a) \<le> a" and "a < 2 powi (ilog2 a + 1)"
  using assms ilog2_ge1 [of a] ilog2_lt1 [of a] by (cases "1 \<le> a"; simp)+

lemma ilog2_eqI:
  fixes a :: real
  assumes "2 powi e \<le> a" and "a < 2 powi (e + 1)"
  shows "ilog2 a = e"
proof -
  have "(0::real) < 2 powi e" by simp
  with assms(1) have pos: "0 < a" by linarith
  note b = ilog2_bounds [OF pos]
  have "(2::real) powi e < 2 powi (ilog2 a + 1)" using assms(1) b(2) by simp
  then have 1: "e < ilog2 a + 1"
    using power_int_increasing [of "ilog2 a + 1" e "2::real"] by (cases "e < ilog2 a + 1") auto
  have "(2::real) powi (ilog2 a) < 2 powi (e + 1)" using assms(2) b(1) by simp
  then have 2: "ilog2 a < e + 1"
    using power_int_increasing [of "e + 1" "ilog2 a" "2::real"] by (cases "ilog2 a < e + 1") auto
  from 1 2 show ?thesis by simp
qed


text \<open>
  With the exponent of \<open>x\<close> at hand, \<open>round64 x\<close> is a matter of arithmetic on
  numerals; the facts of this form below are what the examples use.
\<close>

lemma round64_eval:
  assumes "x \<noteq> 0" and "2 powi e \<le> \<bar>x\<bar>" and "\<bar>x\<bar> < 2 powi (e + 1)"
  shows "round64 x =
     (let q = 2 powi (max e (- 1022) - 52);
          r = of_int (round_half_even (\<bar>x\<bar> / q)) * q
      in if 2 ^ 1024 \<le> r then (if x < 0 then NInf else PInf)
         else Fin (if x < 0 then - r else r))"
  using assms(1) by (simp only: round64_def ilog2_eqI [OF assms(2,3)] Let_def if_False)

lemmas eval_simps = power_int_def power_divide round_half_even_def Let_def

text \<open>Rounding keeps the sign.\<close>

lemma round_half_even_nonneg: "0 \<le> x \<Longrightarrow> 0 \<le> round_half_even x"
  by (auto simp: round_half_even_def Let_def)

lemma round64_nonneg: "0 \<le> x \<Longrightarrow> round64 x = PInf \<or> (\<exists>r. round64 x = Fin r \<and> 0 \<le> r)"
  by (auto simp: round64_def Let_def round_half_even_nonneg)

text \<open>The error of a rounding in the normal range is at most \<open>2 ^ -53\<close> of the number.\<close>

lemma round_half_even_error: "\<bar>of_int (round_half_even x) - x\<bar> \<le> 1 / 2"
proof -
  define f where "f = \<lfloor>x\<rfloor>"
  define d where "d = x - of_int f"
  have d: "0 \<le> d" "d < 1" unfolding d_def f_def by linarith+
  have "round_half_even x = f \<and> d \<le> 1 / 2 \<or> round_half_even x = f + 1 \<and> 1 / 2 \<le> d"
    by (auto simp: round_half_even_def Let_def f_def d_def)
  then show ?thesis
  proof (elim disjE conjE)
    assume a: "round_half_even x = f" "d \<le> 1 / 2"
    have "of_int (round_half_even x) - x = - d" by (simp add: a d_def)
    with d a show ?thesis by simp
  next
    assume a: "round_half_even x = f + 1" "1 / 2 \<le> d"
    have "of_int (round_half_even x) - x = 1 - d" by (simp add: a d_def)
    with d a show ?thesis by simp
  qed
qed

lemma round64_error:
  assumes "round64 x = Fin y" and "2 powi (- 1022) \<le> \<bar>x\<bar>"
  shows "\<bar>y - x\<bar> \<le> 2 powi (- 53) * \<bar>x\<bar>"
proof -
  have "(0::real) < 2 powi (- 1022)" by simp
  with assms(2) have pos: "0 < \<bar>x\<bar>" by linarith
  then have nz: "x \<noteq> 0" by simp
  define e where "e = ilog2 \<bar>x\<bar>"
  define q :: real where "q = 2 powi (e - 52)"
  define m where "m = round_half_even (\<bar>x\<bar> / q)"
  have lo: "2 powi e \<le> \<bar>x\<bar>" unfolding e_def using ilog2_bounds(1) [OF pos] .
  have "\<bar>x\<bar> < 2 powi (e + 1)" unfolding e_def using ilog2_bounds(2) [OF pos] .
  with assms(2) have "(2::real) powi (- 1022) < 2 powi (e + 1)" by linarith
  then have "- 1022 < e + 1"
    using power_int_increasing [of "e + 1" "- 1022" "2::real"] by (cases "- 1022 < e + 1") auto
  then have emax: "max e (- 1022) = e" by simp
  have qpos: "0 < q" by (simp add: q_def)
  have r: "round64 x = (if 2 ^ 1024 \<le> of_int m * q then (if x < 0 then NInf else PInf)
                        else Fin (if x < 0 then - (of_int m * q) else of_int m * q))"
    using nz emax by (simp add: round64_def Let_def e_def q_def m_def)
  from r assms(1) have y: "y = (if x < 0 then - (of_int m * q) else of_int m * q)"
    by (auto split: if_splits)
  have "\<bar>of_int m - \<bar>x\<bar> / q\<bar> \<le> 1 / 2"
    unfolding m_def by (rule round_half_even_error)
  then have "\<bar>of_int m - \<bar>x\<bar> / q\<bar> * q \<le> 1 / 2 * q"
    using qpos by (simp only: mult_le_cancel_right_pos)
  moreover have "\<bar>of_int m - \<bar>x\<bar> / q\<bar> * q = \<bar>of_int m * q - \<bar>x\<bar>\<bar>"
  proof -
    have "\<bar>of_int m - \<bar>x\<bar> / q\<bar> * q = \<bar>(of_int m - \<bar>x\<bar> / q) * q\<bar>"
      using qpos by (simp add: abs_mult)
    also have "(of_int m - \<bar>x\<bar> / q) * q = of_int m * q - \<bar>x\<bar>"
      using qpos by (simp add: field_simps)
    finally show ?thesis .
  qed
  ultimately have err: "\<bar>of_int m * q - \<bar>x\<bar>\<bar> \<le> q / 2" by simp
  have "q / 2 = 2 powi (- 53) * 2 powi e"
    by (simp add: q_def power_int_diff power_int_minus field_simps)
  also have "\<dots> \<le> 2 powi (- 53) * \<bar>x\<bar>"
    using lo by (simp add: mult_left_mono)
  finally have "q / 2 \<le> 2 powi (- 53) * \<bar>x\<bar>" .
  with err have "\<bar>of_int m * q - \<bar>x\<bar>\<bar> \<le> 2 powi (- 53) * \<bar>x\<bar>" by linarith
  moreover have "\<bar>y - x\<bar> = \<bar>of_int m * q - \<bar>x\<bar>\<bar>"
  proof (cases "x < 0")
    case True
    then have "y - x = - (of_int m * q - \<bar>x\<bar>)" by (simp add: y)
    then show ?thesis by (simp only: abs_minus_cancel)
  next
    case False
    then show ?thesis by (simp add: y)
  qed
  ultimately show ?thesis by simp
qed


text \<open>A binary64 number is its own rounding.\<close>

lemma round_half_even_of_int: "round_half_even (of_int n) = n"
  by (simp add: round_half_even_def)

lemma round64_exact:
  assumes x: "x = of_int m * 2 powi k" and m: "\<bar>m\<bar> < 2 ^ 53" and k: "- 1074 \<le> k"
    and top: "\<bar>x\<bar> < 2 ^ 1024"
  shows "round64 x = Fin x"
proof (cases "x = 0")
  case True
  then show ?thesis by (simp add: round64_def)
next
  case False
  then have pos: "0 < \<bar>x\<bar>" by simp
  define e where "e = max (ilog2 \<bar>x\<bar>) (- 1022)"
  define n where "n = nat (k - (e - 52))"
  have a: "\<bar>x\<bar> = of_int \<bar>m\<bar> * 2 powi k" by (simp add: x abs_mult)
  have "of_int \<bar>m\<bar> < (2::real) ^ 53" using m by (simp only: of_int_less_numeral_power_cancel_iff)
  then have "\<bar>x\<bar> < 2 ^ 53 * 2 powi k" unfolding a by (simp add: mult_strict_right_mono)
  also have "\<dots> = 2 powi (53 + k)" by (simp add: power_int_add)
  finally have "\<bar>x\<bar> < 2 powi (53 + k)" .
  with ilog2_bounds(1) [OF pos] have "(2::real) powi (ilog2 \<bar>x\<bar>) < 2 powi (53 + k)" by linarith
  then have "ilog2 \<bar>x\<bar> < 53 + k"
    using power_int_increasing [of "53 + k" "ilog2 \<bar>x\<bar>" "2::real"]
    by (cases "ilog2 \<bar>x\<bar> < 53 + k") auto
  with k have ek: "e - 52 \<le> k" by (simp add: e_def)
  then have pk: "2 powi k = (2::real) ^ n * 2 powi (e - 52)"
    by (simp add: n_def power_int_add [symmetric] flip: power_int_of_nat)
  then have q: "\<bar>x\<bar> / 2 powi (e - 52) = of_int (\<bar>m\<bar> * 2 ^ n)"
    by (simp add: a)
  have r: "of_int (round_half_even (\<bar>x\<bar> / 2 powi (e - 52))) * 2 powi (e - 52) = \<bar>x\<bar>"
    unfolding q round_half_even_of_int by (simp add: a pk mult.assoc)
  have "round64 x =
      (let r = of_int (round_half_even (\<bar>x\<bar> / 2 powi (e - 52))) * 2 powi (e - 52)
       in if 2 ^ 1024 \<le> r then (if x < 0 then NInf else PInf)
          else Fin (if x < 0 then - r else r))"
    using False by (simp only: round64_def Let_def e_def if_False)
  then have "round64 x =
      (if 2 ^ 1024 \<le> \<bar>x\<bar> then (if x < 0 then NInf else PInf)
       else Fin (if x < 0 then - \<bar>x\<bar> else \<bar>x\<bar>))"
    by (simp only: Let_def r)
  with top show ?thesis by (simp add: abs_if split: if_splits)
qed

text \<open>And every rounding that is finite is a binary64 number.\<close>

lemma round64_binary64:
  assumes "round64 x = Fin y"
  shows "\<exists>m k. y = of_int m * 2 powi k \<and> \<bar>m\<bar> \<le> 2 ^ 53 \<and> - 1074 \<le> k \<and> \<bar>y\<bar> < 2 ^ 1024"
proof (cases "x = 0")
  case True
  with assms have "y = 0" by (simp add: round64_def)
  then have "y = of_int 0 * 2 powi 0 \<and> \<bar>0::int\<bar> \<le> 2 ^ 53 \<and> - 1074 \<le> (0::int) \<and> \<bar>y\<bar> < 2 ^ 1024"
    by simp
  then show ?thesis by blast
next
  case False
  then have pos: "0 < \<bar>x\<bar>" by simp
  define e where "e = max (ilog2 \<bar>x\<bar>) (- 1022)"
  define q :: real where "q = 2 powi (e - 52)"
  define n where "n = round_half_even (\<bar>x\<bar> / q)"
  have qpos: "0 < q" by (simp add: q_def)
  have r: "round64 x = (if 2 ^ 1024 \<le> of_int n * q then (if x < 0 then NInf else PInf)
                        else Fin (if x < 0 then - (of_int n * q) else of_int n * q))"
    using False by (simp only: round64_def Let_def e_def q_def n_def if_False)
  with assms have top: "of_int n * q < 2 ^ 1024"
    and y: "y = (if x < 0 then - (of_int n * q) else of_int n * q)"
    by (auto split: if_splits)
  have "0 \<le> \<bar>x\<bar> / q" using qpos by simp
  then have n0: "0 \<le> n" unfolding n_def by (rule round_half_even_nonneg)
  have "ilog2 \<bar>x\<bar> + 1 \<le> e + 1" by (simp add: e_def)
  then have "(2::real) powi (ilog2 \<bar>x\<bar> + 1) \<le> 2 powi (e + 1)"
    by (rule power_int_increasing) simp
  with ilog2_bounds(2) [OF pos] have lt: "\<bar>x\<bar> < 2 powi (e + 1)" by linarith
  have "(2::real) powi (53 + (e - 52)) = 2 powi 53 * 2 powi (e - 52)"
    by (rule power_int_add) simp
  moreover have "53 + (e - 52) = e + 1" by simp
  ultimately have "(2::real) powi (e + 1) = 2 powi 53 * 2 powi (e - 52)"
    by (simp only:)
  then have "(2::real) powi (e + 1) = 2 powi 53 * q" by (simp only: q_def)
  with lt have "\<bar>x\<bar> < 2 powi 53 * q" by simp
  then have "\<bar>x\<bar> / q < 2 powi 53" using qpos by (simp only: pos_divide_less_eq)
  moreover have "\<bar>of_int n - \<bar>x\<bar> / q\<bar> \<le> 1 / 2"
    unfolding n_def by (rule round_half_even_error)
  ultimately have "of_int n < (2::real) powi 53 + 1" by linarith
  then have "real_of_int n < of_int (2 ^ 53 + 1)" by simp
  then have "n < 2 ^ 53 + 1" by (simp only: of_int_less_iff)
  with n0 have n53: "\<bar>n\<bar> \<le> 2 ^ 53" by simp
  have k: "- 1074 \<le> e - 52" by (simp add: e_def)
  have nq: "0 \<le> of_int n * q" using n0 qpos by simp
  have ay: "\<bar>y\<bar> = of_int n * q" using nq by (simp add: y)
  show ?thesis
  proof (cases "x < 0")
    case True
    then have "y = of_int (- n) * 2 powi (e - 52)" by (simp add: y q_def)
    moreover have "\<bar>- n\<bar> \<le> 2 ^ 53" using n53 by simp
    moreover have "\<bar>y\<bar> < 2 ^ 1024" using top by (simp only: ay)
    ultimately show ?thesis using k by blast
  next
    case False
    then have "y = of_int n * 2 powi (e - 52)" by (simp add: y q_def)
    moreover have "\<bar>y\<bar> < 2 ^ 1024" using top by (simp only: ay)
    ultimately show ?thesis using k n53 by blast
  qed
qed

text \<open>Comparisons and division.\<close>

lemma py_lt_not_le: "py_lt a b \<Longrightarrow> \<not> py_le b a"
  by (cases a; cases b) (auto simp: py_le_def py_eq_def)

lemma py_le_not_gt: "py_le a b \<Longrightarrow> \<not> py_gt a b"
  by (cases a; cases b) (auto simp: py_le_def py_eq_def py_gt_def)

lemma truediv_nonzero: "price \<noteq> Fin 0 \<Longrightarrow> \<exists>q. py_truediv amount price = Inr q"
  by (cases amount; cases price) auto

lemma py_eq_zero: "py_eq x (Fin 0) \<longleftrightarrow> x = Fin 0"
  by (auto simp: py_eq_def)

text \<open>Floats that are \<open>\<ge> 0\<close>.\<close>

lemma py_le_zero_cases: "py_le (Fin 0) x \<longleftrightarrow> x = PInf \<or> (\<exists>r. x = Fin r \<and> 0 \<le> r)"
  by (cases x) (auto simp: py_le_def py_eq_def)

lemma py_le_zero_round64: "0 \<le> x \<Longrightarrow> py_le (Fin 0) (round64 x)"
  using round64_nonneg [of x] by (auto simp: py_le_zero_cases)

lemma py_add_nonneg:
  assumes "py_le (Fin 0) x" and "py_le (Fin 0) y"
  shows "py_le (Fin 0) (py_add x y)"
proof -
  from assms consider "x = PInf" "y = PInf" | r where "x = PInf" "y = Fin r"
    | r where "x = Fin r" "y = PInf" | r s where "x = Fin r" "0 \<le> r" "y = Fin s" "0 \<le> s"
    by (auto simp: py_le_zero_cases)
  then show ?thesis
    by cases (simp_all add: py_le_zero_round64, simp_all add: py_le_zero_cases)
qed

lemma py_sub_nonneg:
  assumes "py_le (Fin 0) x" and "py_le (Fin 0) (Fin y)" and "\<not> py_gt (Fin y) x"
  shows "py_le (Fin 0) (py_sub x (Fin y))"
proof -
  from assms(1) consider "x = PInf" | r where "x = Fin r" "0 \<le> r"
    by (auto simp: py_le_zero_cases)
  then show ?thesis
  proof cases
    case 1
    then show ?thesis by (simp add: py_sub_def py_le_zero_cases)
  next
    case 2
    with assms(3) have "0 \<le> r - y" by (simp add: py_gt_def)
    then have "py_le (Fin 0) (round64 (r - y))" by (rule py_le_zero_round64)
    with 2 show ?thesis by (simp add: py_sub_def)
  qed
qed

lemma truediv_nonneg:
  assumes "0 < a" and "py_lt (Fin 0) price"
  shows "\<exists>q. py_truediv (Fin a) price = Inr q \<and> py_le (Fin 0) q"
proof (cases price)
  case (Fin p)
  with assms have "0 \<le> a / p" by simp
  then have "py_le (Fin 0) (round64 (a / p))" by (rule py_le_zero_round64)
  with Fin assms show ?thesis by simp
qed (use assms in \<open>simp_all add: py_le_zero_cases\<close>)

lemma py_mul_nonneg:
  assumes "0 < b" and "py_lt (Fin 0) price"
  shows "py_le (Fin 0) (py_mul (Fin b) price)"
proof (cases price)
  case (Fin p)
  with assms have "0 \<le> b * p" by simp
  then have "py_le (Fin 0) (round64 (b * p))" by (rule py_le_zero_round64)
  with Fin show ?thesis by simp
qed (use assms in \<open>simp_all add: py_le_zero_cases inf_times_def\<close>)

text \<open>Roundings used in the examples.\<close>

lemma round64_10000: "round64 10000 = Fin 10000"
  by (subst round64_eval [where e = 13]) (simp_all add: eval_simps)

lemma round64_fifth: "round64 (1 / 5) = Fin (3602879701896397 / 18014398509481984)"
  by (subst round64_eval [where e = "- 3"]) (simp_all add: eval_simps)

lemma round64_fifth_again:
  "round64 (3602879701896397 / 18014398509481984) = Fin (3602879701896397 / 18014398509481984)"
  by (subst round64_eval [where e = "- 3"]) (simp_all add: eval_simps)

lemma round64_ten_quadrillion: "round64 9999999999999999 = Fin 10000000000000000"
  by (subst round64_eval [where e = 53]) (simp_all add: eval_simps)

lemma round64_1: "round64 1 = Fin 1"
  by (subst round64_eval [where e = 0]) (simp_all add: eval_simps)

lemma round64_2: "round64 2 = Fin 2"
  by (subst round64_eval [where e = 1]) (simp_all add: eval_simps)

lemma round64_half: "round64 (1 / 2) = Fin (1 / 2)"
  by (subst round64_eval [where e = "- 1"]) (simp_all add: eval_simps)

lemma round64_0: "round64 0 = Fin 0"
  by (simp add: round64_def)

lemma round64_12000: "round64 (6755399441055744375 / 562949953421312) = Fin 12000"
  by (subst round64_eval [where e = 13]) (simp_all add: eval_simps)

lemma round64_22000: "round64 22000 = Fin 22000"
  by (subst round64_eval [where e = 14]) (simp_all add: eval_simps)

lemma round64_3half: "round64 (3 / 2) = Fin (3 / 2)"
  by (subst round64_eval [where e = 0]) (simp_all add: eval_simps)

lemma round64_45000: "round64 45000 = Fin 45000"
  by (subst round64_eval [where e = 15]) (simp_all add: eval_simps)

lemma round64_19900: "round64 19900 = Fin 19900"
  by (subst round64_eval [where e = 14]) (simp_all add: eval_simps)

lemma round64_tiny: "round64 (1 / 2 ^ 1076) = Fin 0"
  by (subst round64_eval [where e = "- 1076"]) (simp_all add: eval_simps)

section \<open>Facts about the methods\<close>

lemmas method_defs =
  buy_btc_def sell_btc_def get_current_btc_price_def record_transaction_def
  save_history_def save_data_def Let_def

lemma new_trader_simp:
  "new_trader c True =
     \<lparr>starting_cash = c, starting_total = c, cash_balance = c, btc_balance = Fin 0,
      transaction_history = [], data_file = Some (c, Fin 0, c), history_file = Some [],
      writable = True\<rparr>"
  by (simp add: new_trader_def save_data_def save_history_def)

text \<open>Saving changes no balance and no history.\<close>

lemma saved_fields:
  "cash_balance (save_data t) = cash_balance t"
  "btc_balance (save_data t) = btc_balance t"
  "transaction_history (save_data t) = transaction_history t"
  "cash_balance (save_history t) = cash_balance t"
  "btc_balance (save_history t) = btc_balance t"
  "transaction_history (save_history t) = transaction_history t"
  "cash_balance (record_transaction t ty am bt pr uid now) = cash_balance t"
  "btc_balance (record_transaction t ty am bt pr uid now) = btc_balance t"
  by (simp_all add: save_data_def save_history_def record_transaction_def)

section \<open>Buying\<close>

text \<open>
  C1. A buy of \<open>amount\<close> with \<open>0 < amount \<le> cash_balance\<close> at an available price
  other than zero succeeds: \<open>cash_balance\<close> becomes the float difference
  \<open>cash_balance - amount\<close>, \<open>btc_balance\<close> the float sum of \<open>btc_balance\<close> and the
  float quotient \<open>amount / price\<close>, and exactly one \<open>buy\<close> transaction holding the
  amount, that quotient and the price is appended to the history. The difference, sum
  and quotient are those of binary64 arithmetic, rounded to nearest.
\<close>

theorem buy_btc_applies:
  assumes "py_lt (Fin 0) amount" and "py_le amount (cash_balance t)" and "price \<noteq> Fin 0"
  shows "\<exists>q t'. py_truediv amount price = Inr q
           \<and> buy_btc t (Some amount) (Some price) uid now = Inr (Bought, t')
           \<and> cash_balance t' = py_sub (cash_balance t) amount
           \<and> btc_balance t' = py_add (btc_balance t) q
           \<and> transaction_history t' = transaction_history t @
                [\<lparr>txn_id = uid, txn_type = ''buy'', amount_usd = amount, btc = q,
                  price_per_btc = price, timestamp = now\<rparr>]"
proof -
  from assms(3) obtain q where q: "py_truediv amount price = Inr q"
    using truediv_nonzero by blast
  have a: "\<not> py_le amount (Fin 0)" using assms(1) by (rule py_lt_not_le)
  have b: "\<not> py_gt amount (cash_balance t)" using assms(2) by (rule py_le_not_gt)
  show ?thesis
    using q a b by (simp add: method_defs)
qed

text \<open>
  The scenario of the specification: with 20000 in cash, buying for 10000 at 50000
  leaves 10000 in cash and the float nearest to 0.2 in bitcoin.
\<close>

theorem buy_btc_applies_witness:
  "py_lt (Fin 0) (Fin 10000)
   \<and> py_le (Fin 10000) (cash_balance (new_trader (Fin 20000) True))
   \<and> Fin 50000 \<noteq> Fin 0
   \<and> (\<exists>t'. buy_btc (new_trader (Fin 20000) True) (Some (Fin 10000)) (Some (Fin 50000))
              ''id'' ''ts'' = Inr (Bought, t')
          \<and> cash_balance t' = Fin 10000
          \<and> btc_balance t' = Fin (3602879701896397 / 18014398509481984)
          \<and> transaction_history t' =
               [\<lparr>txn_id = ''id'', txn_type = ''buy'', amount_usd = Fin 10000,
                 btc = Fin (3602879701896397 / 18014398509481984),
                 price_per_btc = Fin 50000, timestamp = ''ts''\<rparr>])"
proof -
  have h1: "py_lt (Fin 0) (Fin 10000)" by simp
  have h2: "py_le (Fin 10000) (cash_balance (new_trader (Fin 20000) True))"
    by (simp add: new_trader_simp py_le_def)
  have h3: "Fin 50000 \<noteq> Fin 0" by simp
  have q: "py_truediv (Fin 10000) (Fin 50000) = Inr (Fin (3602879701896397 / 18014398509481984))"
    by (simp add: round64_fifth)
  have c: "py_sub (cash_balance (new_trader (Fin 20000) True)) (Fin 10000) = Fin 10000"
    by (simp add: new_trader_simp py_sub_def round64_10000)
  have b: "py_add (btc_balance (new_trader (Fin 20000) True))
             (Fin (3602879701896397 / 18014398509481984))
           = Fin (3602879701896397 / 18014398509481984)"
    by (simp add: new_trader_simp round64_fifth_again)
  have n: "transaction_history (new_trader (Fin 20000) True) = []"
    by (simp add: new_trader_simp)
  from buy_btc_applies [OF h1 h2 h3, of "''id''" "''ts''"] q c b n h1 h2 h3
  show ?thesis by auto
qed

text \<open>
  Two buys with \<open>0 < amount \<le> cash_balance\<close> and a price at hand. With
  \<open>10 ^ 16\<close> in cash, buying for 1 at the price 1 succeeds and leaves the cash at
  \<open>10 ^ 16\<close>: the difference \<open>10 ^ 16 - 1\<close> is no binary64 number and rounds back.
  With the price 0 the division raises and the method lets \<open>ZeroDivisionError\<close>
  escape.
\<close>

theorem buy_btc_exact_counterexample:
  "py_lt (Fin 0) (Fin 1)
   \<and> py_le (Fin 1) (cash_balance (new_trader (Fin 10000000000000000) True))
   \<and> buy_btc (new_trader (Fin 10000000000000000) True) (Some (Fin 1)) (Some (Fin 1))
        ''id'' ''ts''
      = Inr (Bought,
          \<lparr>starting_cash = Fin 10000000000000000, starting_total = Fin 10000000000000000,
           cash_balance = Fin 10000000000000000, btc_balance = Fin 1,
           transaction_history =
             [\<lparr>txn_id = ''id'', txn_type = ''buy'', amount_usd = Fin 1, btc = Fin 1,
               price_per_btc = Fin 1, timestamp = ''ts''\<rparr>],
           data_file = Some (Fin 10000000000000000, Fin 1, Fin 10000000000000000),
           history_file =
             Some [\<lparr>txn_id = ''id'', txn_type = ''buy'', amount_usd = Fin 1, btc = Fin 1,
                    price_per_btc = Fin 1, timestamp = ''ts''\<rparr>],
           writable = True\<rparr>)
   \<and> Fin 10000000000000000 \<noteq> Fin (10000000000000000 - 1)
   \<and> py_lt (Fin 0) (Fin 100)
   \<and> py_le (Fin 100) (cash_balance (new_trader (Fin 20000) True))
   \<and> buy_btc (new_trader (Fin 20000) True) (Some (Fin 100)) (Some (Fin 0)) ''id'' ''ts''
       = Inl ZeroDivisionError"
  by (simp add: method_defs new_trader_simp py_le_def py_gt_def py_eq_def py_sub_def
      round64_ten_quadrillion round64_1)

text \<open>
  C3. A buy whose amount is \<open>\<le> 0\<close> reports \<open>InvalidAmount\<close>; otherwise, when the
  amount is \<open>> cash_balance\<close>, it reports \<open>InsufficientCash\<close>. The first check comes
  first, and in both cases the trader (balances, history, files) is unchanged, whether
  or not a price is at hand.
\<close>

theorem buy_btc_rejects:
  "(py_le amount (Fin 0) \<longrightarrow>
      buy_btc t (Some amount) latest uid now = Inr (InvalidAmount, t))
   \<and> (\<not> py_le amount (Fin 0) \<and> py_gt amount (cash_balance t) \<longrightarrow>
      buy_btc t (Some amount) latest uid now = Inr (InsufficientCash, t))"
  by (simp add: buy_btc_def)

text \<open>\<open>buy(0)\<close>, \<open>buy(-5)\<close> and a buy of 20001 with 20000 in cash.\<close>

theorem buy_btc_rejects_witness:
  "py_le (Fin 0) (Fin 0) \<and> py_le (Fin (- 5)) (Fin 0)
   \<and> buy_btc (new_trader (Fin 20000) True) (Some (Fin 0)) (Some (Fin 50000)) ''id'' ''ts''
       = Inr (InvalidAmount, new_trader (Fin 20000) True)
   \<and> buy_btc (new_trader (Fin 20000) True) (Some (Fin (- 5))) (Some (Fin 50000)) ''id'' ''ts''
       = Inr (InvalidAmount, new_trader (Fin 20000) True)
   \<and> \<not> py_le (Fin 20001) (Fin 0)
   \<and> py_gt (Fin 20001) (cash_balance (new_trader (Fin 20000) True))
   \<and> buy_btc (new_trader (Fin 20000) True) (Some (Fin 20001)) (Some (Fin 50000)) ''id'' ''ts''
       = Inr (InsufficientCash, new_trader (Fin 20000) True)"
proof -
  have z: "py_le (Fin 0) (Fin 0)" by (simp add: py_le_def py_eq_def)
  have n: "py_le (Fin (- 5)) (Fin 0)" by (simp add: py_le_def)
  have p: "\<not> py_le (Fin 20001) (Fin 0)" by (simp add: py_le_def py_eq_def)
  have g: "py_gt (Fin 20001) (cash_balance (new_trader (Fin 20000) True))"
    by (simp add: new_trader_simp py_gt_def)
  note r = buy_btc_rejects [where t = "new_trader (Fin 20000) True"
      and latest = "Some (Fin 50000)" and uid = "''id''" and now = "''ts''"]
  from r [where amount = "Fin 0"] r [where amount = "Fin (- 5)"] r [where amount = "Fin 20001"]
    z n p g
  show ?thesis by blast
qed

section \<open>Selling\<close>

text \<open>
  C4. A sale by amount (menu answer \<open>2\<close>) with \<open>0 < amount\<close> at an available price
  other than zero. With a bitcoin balance equal to 0 it reports \<open>NothingToSell\<close>.
  Otherwise, with \<open>q\<close> the float quotient \<open>amount / price\<close>: when \<open>q > btc_balance\<close>
  it reports \<open>InsufficientAsset\<close>; when not, it succeeds, \<open>btc_balance\<close> becomes the
  float difference \<open>btc_balance - q\<close>, \<open>cash_balance\<close> the float sum
  \<open>cash_balance + amount\<close>, and one \<open>sell\<close> transaction is appended. A report of
  \<open>NothingToSell\<close> or \<open>InsufficientAsset\<close> leaves the trader unchanged.
\<close>

theorem sell_amount_applies:
  assumes "py_lt (Fin 0) amount" and "price \<noteq> Fin 0"
  shows "\<exists>q. py_truediv amount price = Inr q
     \<and> (py_eq (btc_balance t) (Fin 0) \<longrightarrow>
          sell_btc t ''2'' (Some amount) (Some price) uid now = Inr (NothingToSell, t))
     \<and> (\<not> py_eq (btc_balance t) (Fin 0) \<and> py_gt q (btc_balance t) \<longrightarrow>
          sell_btc t ''2'' (Some amount) (Some price) uid now = Inr (InsufficientAsset, t))
     \<and> (\<not> py_eq (btc_balance t) (Fin 0) \<and> \<not> py_gt q (btc_balance t) \<longrightarrow>
          (\<exists>t'. sell_btc t ''2'' (Some amount) (Some price) uid now = Inr (Sold, t')
             \<and> btc_balance t' = py_sub (btc_balance t) q
             \<and> cash_balance t' = py_add (cash_balance t) amount
             \<and> transaction_history t' = transaction_history t @
                  [\<lparr>txn_id = uid, txn_type = ''sell'', amount_usd = amount, btc = q,
                    price_per_btc = price, timestamp = now\<rparr>]))"
proof -
  from assms(2) obtain q where q: "py_truediv amount price = Inr q"
    using truediv_nonzero by blast
  have a: "\<not> py_le amount (Fin 0)" using assms(1) by (rule py_lt_not_le)
  show ?thesis
    using q a by (simp add: method_defs)
qed

text \<open>
  Selling for 25000 at 50000, that is half a bitcoin, while holding none, a quarter,
  and two.
\<close>

theorem sell_amount_applies_witness:
  "py_lt (Fin 0) (Fin 25000) \<and> Fin 50000 \<noteq> Fin 0
   \<and> sell_btc (new_trader (Fin 20000) True) ''2'' (Some (Fin 25000)) (Some (Fin 50000))
        ''id'' ''ts'' = Inr (NothingToSell, new_trader (Fin 20000) True)
   \<and> sell_btc ((new_trader (Fin 20000) True)\<lparr>btc_balance := Fin (1 / 4)\<rparr>) ''2''
        (Some (Fin 25000)) (Some (Fin 50000)) ''id'' ''ts''
       = Inr (InsufficientAsset, (new_trader (Fin 20000) True)\<lparr>btc_balance := Fin (1 / 4)\<rparr>)
   \<and> (\<exists>t'. sell_btc ((new_trader (Fin 20000) True)\<lparr>btc_balance := Fin 2\<rparr>) ''2''
              (Some (Fin 25000)) (Some (Fin 50000)) ''id'' ''ts'' = Inr (Sold, t')
          \<and> btc_balance t' = Fin (3 / 2)
          \<and> cash_balance t' = Fin 45000
          \<and> transaction_history t' =
               [\<lparr>txn_id = ''id'', txn_type = ''sell'', amount_usd = Fin 25000,
                 btc = Fin (1 / 2), price_per_btc = Fin 50000, timestamp = ''ts''\<rparr>])"
proof -
  have h1: "py_lt (Fin 0) (Fin 25000)" by simp
  have h2: "Fin 50000 \<noteq> Fin 0" by simp
  have q: "py_truediv (Fin 25000) (Fin 50000) = Inr (Fin (1 / 2))"
    by (simp add: round64_half)
  note r = sell_amount_applies [OF h1 h2, where uid = "''id''" and now = "''ts''"]
  from r [where t = "new_trader (Fin 20000) True"]
  have 1: "sell_btc (new_trader (Fin 20000) True) ''2'' (Some (Fin 25000)) (Some (Fin 50000))
        ''id'' ''ts'' = Inr (NothingToSell, new_trader (Fin 20000) True)"
    by (auto simp: new_trader_simp py_eq_def)
  from r [where t = "(new_trader (Fin 20000) True)\<lparr>btc_balance := Fin (1 / 4)\<rparr>"] q
  have 2: "sell_btc ((new_trader (Fin 20000) True)\<lparr>btc_balance := Fin (1 / 4)\<rparr>) ''2''
        (Some (Fin 25000)) (Some (Fin 50000)) ''id'' ''ts''
       = Inr (InsufficientAsset, (new_trader (Fin 20000) True)\<lparr>btc_balance := Fin (1 / 4)\<rparr>)"
    by (auto simp: py_eq_def py_gt_def)
  from r [where t = "(new_trader (Fin 20000) True)\<lparr>btc_balance := Fin 2\<rparr>"] q
  have 3: "\<exists>t'. sell_btc ((new_trader (Fin 20000) True)\<lparr>btc_balance := Fin 2\<rparr>) ''2''
              (Some (Fin 25000)) (Some (Fin 50000)) ''id'' ''ts'' = Inr (Sold, t')
          \<and> btc_balance t' = Fin (3 / 2)
          \<and> cash_balance t' = Fin 45000
          \<and> transaction_history t' =
               [\<lparr>txn_id = ''id'', txn_type = ''sell'', amount_usd = Fin 25000,
                 btc = Fin (1 / 2), price_per_btc = Fin 50000, timestamp = ''ts''\<rparr>]"
    by (auto simp: py_eq_def py_gt_def py_sub_def new_trader_simp round64_3half round64_45000)
  from h1 h2 1 2 3 show ?thesis by blast
qed

text \<open>
  Selling for 25000 at 50000 while holding no bitcoin: half a bitcoin is more than the
  balance, and the report is \<open>NothingToSell\<close>, from the check on the balance that
  opens \<open>sell_btc\<close>. And with two bitcoins and the price 0, the division raises.
\<close>

theorem sell_amount_empty_counterexample:
  "py_lt (Fin 0) (Fin 25000)
   \<and> py_truediv (Fin 25000) (Fin 50000) = Inr (Fin (1 / 2))
   \<and> py_gt (Fin (1 / 2)) (btc_balance (new_trader (Fin 20000) True))
   \<and> sell_btc (new_trader (Fin 20000) True) ''2'' (Some (Fin 25000)) (Some (Fin 50000))
        ''id'' ''ts'' = Inr (NothingToSell, new_trader (Fin 20000) True)
   \<and> sell_btc (new_trader (Fin 20000) True) ''2'' (Some (Fin 25000)) (Some (Fin 50000))
        ''id'' ''ts'' \<noteq> Inr (InsufficientAsset, new_trader (Fin 20000) True)
   \<and> sell_btc ((new_trader (Fin 20000) True)\<lparr>btc_balance := Fin 2\<rparr>) ''2''
        (Some (Fin 25000)) (Some (Fin 0)) ''id'' ''ts'' = Inl ZeroDivisionError"
  by (simp add: method_defs new_trader_simp py_le_def py_gt_def py_eq_def round64_half)

text \<open>
  C5. Selling everything (menu answer \<open>1\<close>) while a price is at hand leaves a
  bitcoin balance of 0. With a balance equal to 0 before, the report is
  \<open>NothingToSell\<close> and the trader is unchanged; otherwise the sale succeeds,
  \<open>cash_balance\<close> becomes the float sum of \<open>cash_balance\<close> and the float product
  \<open>btc_balance * price\<close>, and one \<open>sell\<close> transaction is appended.
\<close>

theorem sell_all_applies:
  "\<exists>r t'. sell_btc t ''1'' typed (Some price) uid now = Inr (r, t')
     \<and> btc_balance t' = Fin 0
     \<and> (py_eq (btc_balance t) (Fin 0) \<longrightarrow> r = NothingToSell \<and> t' = t)
     \<and> (\<not> py_eq (btc_balance t) (Fin 0) \<longrightarrow>
          r = SoldAll
          \<and> cash_balance t' = py_add (cash_balance t) (py_mul (btc_balance t) price)
          \<and> transaction_history t' = transaction_history t @
               [\<lparr>txn_id = uid, txn_type = ''sell'',
                 amount_usd = py_mul (btc_balance t) price, btc = btc_balance t,
                 price_per_btc = price, timestamp = now\<rparr>])"
  by (auto simp: method_defs py_eq_zero)

text \<open>
  The scenario of the specification: after the buy at 50000, selling everything at
  60000 brings the cash to 22000. And selling everything while holding nothing.
\<close>

theorem sell_all_applies_witness:
  "py_eq (btc_balance (new_trader (Fin 20000) True)) (Fin 0)
   \<and> sell_btc (new_trader (Fin 20000) True) ''1'' None (Some (Fin 60000)) ''id'' ''ts''
       = Inr (NothingToSell, new_trader (Fin 20000) True)
   \<and> \<not> py_eq (btc_balance ((new_trader (Fin 20000) True)
            \<lparr>cash_balance := Fin 10000,
             btc_balance := Fin (3602879701896397 / 18014398509481984)\<rparr>)) (Fin 0)
   \<and> (\<exists>t'. sell_btc ((new_trader (Fin 20000) True)
               \<lparr>cash_balance := Fin 10000,
                btc_balance := Fin (3602879701896397 / 18014398509481984)\<rparr>)
             ''1'' None (Some (Fin 60000)) ''id'' ''ts'' = Inr (SoldAll, t')
          \<and> btc_balance t' = Fin 0
          \<and> cash_balance t' = Fin 22000
          \<and> transaction_history t' =
               [\<lparr>txn_id = ''id'', txn_type = ''sell'', amount_usd = Fin 12000,
                 btc = Fin (3602879701896397 / 18014398509481984),
                 price_per_btc = Fin 60000, timestamp = ''ts''\<rparr>])"
proof -
  let ?t = "(new_trader (Fin 20000) True)
     \<lparr>cash_balance := Fin 10000, btc_balance := Fin (3602879701896397 / 18014398509481984)\<rparr>"
  have z: "py_eq (btc_balance (new_trader (Fin 20000) True)) (Fin 0)"
    by (simp add: new_trader_simp py_eq_def)
  have nz: "\<not> py_eq (btc_balance ?t) (Fin 0)" by (simp add: py_eq_def)
  note r = sell_all_applies [where typed = None and price = "Fin 60000" and uid = "''id''"
      and now = "''ts''"]
  from r [where t = "new_trader (Fin 20000) True"] z
  have 1: "sell_btc (new_trader (Fin 20000) True) ''1'' None (Some (Fin 60000)) ''id'' ''ts''
       = Inr (NothingToSell, new_trader (Fin 20000) True)"
    by auto
  from r [where t = ?t] nz
  have 2: "\<exists>t'. sell_btc ?t ''1'' None (Some (Fin 60000)) ''id'' ''ts'' = Inr (SoldAll, t')
          \<and> btc_balance t' = Fin 0
          \<and> cash_balance t' = Fin 22000
          \<and> transaction_history t' =
               [\<lparr>txn_id = ''id'', txn_type = ''sell'', amount_usd = Fin 12000,
                 btc = Fin (3602879701896397 / 18014398509481984),
                 price_per_btc = Fin 60000, timestamp = ''ts''\<rparr>]"
    by (auto simp: new_trader_simp round64_12000 round64_22000)
  from z nz 1 2 show ?thesis by blast
qed

text \<open>
  Selling everything before the first tick, with two bitcoins: the report is
  \<open>PriceUnavailable\<close> and the two bitcoins stay.
\<close>

theorem sell_all_without_price_counterexample:
  "sell_btc ((new_trader (Fin 20000) True)\<lparr>btc_balance := Fin 2\<rparr>) ''1'' None None ''id'' ''ts''
     = Inr (PriceUnavailable, (new_trader (Fin 20000) True)\<lparr>btc_balance := Fin 2\<rparr>)
   \<and> btc_balance ((new_trader (Fin 20000) True)\<lparr>btc_balance := Fin 2\<rparr>) \<noteq> Fin 0"
  by (simp add: method_defs py_eq_def)

section \<open>Trading before the first tick\<close>

text \<open>
  C2. While no price has been observed, \<open>buy_btc\<close> and \<open>sell_btc\<close> return with the
  trader, and so the balances and the history, unchanged, and report the first check
  that fails, or \<open>PriceUnavailable\<close> when none does. A buy reports \<open>InvalidInput\<close>
  for a text that is no number, \<open>InvalidAmount\<close> for an amount \<open>\<le> 0\<close>,
  \<open>InsufficientCash\<close> for one that is \<open>> cash_balance\<close>, and \<open>PriceUnavailable\<close>
  for any other. A sale reports \<open>NothingToSell\<close> when the bitcoin balance is 0; with
  another balance, selling everything reports \<open>PriceUnavailable\<close>, selling by amount
  reports \<open>InvalidInput\<close> for a text that is no number, \<open>InvalidAmount\<close> for an
  amount \<open>\<le> 0\<close> and \<open>PriceUnavailable\<close> for any other, and a menu answer other
  than \<open>1\<close> and \<open>2\<close> reports \<open>InvalidSelection\<close>.
\<close>

theorem trade_without_price:
  "buy_btc t None None uid now = Inr (InvalidInput, t)
   \<and> (py_le a (Fin 0) \<longrightarrow>
        buy_btc t (Some a) None uid now = Inr (InvalidAmount, t))
   \<and> (\<not> py_le a (Fin 0) \<and> py_gt a (cash_balance t) \<longrightarrow>
        buy_btc t (Some a) None uid now = Inr (InsufficientCash, t))
   \<and> (\<not> py_le a (Fin 0) \<and> \<not> py_gt a (cash_balance t) \<longrightarrow>
        buy_btc t (Some a) None uid now = Inr (PriceUnavailable, t))
   \<and> (py_eq (btc_balance t) (Fin 0) \<longrightarrow>
        sell_btc t sub_choice typed None uid now = Inr (NothingToSell, t))
   \<and> (\<not> py_eq (btc_balance t) (Fin 0) \<longrightarrow>
        sell_btc t ''1'' typed None uid now = Inr (PriceUnavailable, t)
        \<and> sell_btc t ''2'' None None uid now = Inr (InvalidInput, t)
        \<and> (py_le a (Fin 0) \<longrightarrow>
             sell_btc t ''2'' (Some a) None uid now = Inr (InvalidAmount, t))
        \<and> (\<not> py_le a (Fin 0) \<longrightarrow>
             sell_btc t ''2'' (Some a) None uid now = Inr (PriceUnavailable, t))
        \<and> (sub_choice \<noteq> ''1'' \<and> sub_choice \<noteq> ''2'' \<longrightarrow>
             sell_btc t sub_choice typed None uid now = Inr (InvalidSelection, t)))"
  by (simp add: buy_btc_def sell_btc_def get_current_btc_price_def)

text \<open>
  With 20000 in cash: buys of a text that is no number, of \<open>-5\<close>, of 20001 and of
  100; a sale while holding nothing; and, holding two bitcoins, a sale of everything,
  sales by amount of a text that is no number, of \<open>-5\<close> and of 100, and the menu
  answer \<open>3\<close>.
\<close>

theorem trade_without_price_witness:
  "buy_btc (new_trader (Fin 20000) True) None None ''id'' ''ts''
     = Inr (InvalidInput, new_trader (Fin 20000) True)
   \<and> buy_btc (new_trader (Fin 20000) True) (Some (Fin (- 5))) None ''id'' ''ts''
     = Inr (InvalidAmount, new_trader (Fin 20000) True)
   \<and> buy_btc (new_trader (Fin 20000) True) (Some (Fin 20001)) None ''id'' ''ts''
     = Inr (InsufficientCash, new_trader (Fin 20000) True)
   \<and> buy_btc (new_trader (Fin 20000) True) (Some (Fin 100)) None ''id'' ''ts''
     = Inr (PriceUnavailable, new_trader (Fin 20000) True)
   \<and> sell_btc (new_trader (Fin 20000) True) ''1'' None None ''id'' ''ts''
     = Inr (NothingToSell, new_trader (Fin 20000) True)
   \<and> sell_btc ((new_trader (Fin 20000) True)\<lparr>btc_balance := Fin 2\<rparr>) ''1'' None None ''id'' ''ts''
     = Inr (PriceUnavailable, (new_trader (Fin 20000) True)\<lparr>btc_balance := Fin 2\<rparr>)
   \<and> sell_btc ((new_trader (Fin 20000) True)\<lparr>btc_balance := Fin 2\<rparr>) ''2'' None None ''id'' ''ts''
     = Inr (InvalidInput, (new_trader (Fin 20000) True)\<lparr>btc_balance := Fin 2\<rparr>)
   \<and> sell_btc ((new_trader (Fin 20000) True)\<lparr>btc_balance := Fin 2\<rparr>) ''2''
        (Some (Fin (- 5))) None ''id'' ''ts''
     = Inr (InvalidAmount, (new_trader (Fin 20000) True)\<lparr>btc_balance := Fin 2\<rparr>)
   \<and> sell_btc ((new_trader (Fin 20000) True)\<lparr>btc_balance := Fin 2\<rparr>) ''2''
        (Some (Fin 100)) None ''id'' ''ts''
     = Inr (PriceUnavailable, (new_trader (Fin 20000) True)\<lparr>btc_balance := Fin 2\<rparr>)
   \<and> sell_btc ((new_trader (Fin 20000) True)\<lparr>btc_balance := Fin 2\<rparr>) ''3'' None None ''id'' ''ts''
     = Inr (InvalidSelection, (new_trader (Fin 20000) True)\<lparr>btc_balance := Fin 2\<rparr>)"
proof -
  let ?t = "new_trader (Fin 20000) True"
  let ?h = "(new_trader (Fin 20000) True)\<lparr>btc_balance := Fin 2\<rparr>"
  have neg: "py_le (Fin (- 5)) (Fin 0)" by (simp add: py_le_def)
  have big: "\<not> py_le (Fin 20001) (Fin 0)" "py_gt (Fin 20001) (cash_balance ?t)"
    by (simp_all add: new_trader_simp py_le_def py_eq_def py_gt_def)
  have ok: "\<not> py_le (Fin 100) (Fin 0)" "\<not> py_gt (Fin 100) (cash_balance ?t)"
    by (simp_all add: new_trader_simp py_le_def py_eq_def py_gt_def)
  have none: "py_eq (btc_balance ?t) (Fin 0)" by (simp add: new_trader_simp py_eq_def)
  have two: "\<not> py_eq (btc_balance ?h) (Fin 0)" by (simp add: py_eq_def)
  have other: "''3'' \<noteq> ''1''" "''3'' \<noteq> ''2''" by simp_all
  note b = trade_without_price [where t = ?t and uid = "''id''" and now = "''ts''"
      and sub_choice = "''1''" and typed = None]
  note s = trade_without_price [where t = ?h and uid = "''id''" and now = "''ts''"
      and typed = None]
  from b [where a = "Fin (- 5)"] neg
  have 1: "buy_btc ?t None None ''id'' ''ts'' = Inr (InvalidInput, ?t)"
    and 2: "buy_btc ?t (Some (Fin (- 5))) None ''id'' ''ts'' = Inr (InvalidAmount, ?t)"
    by blast+
  from b [where a = "Fin 20001"] big
  have 3: "buy_btc ?t (Some (Fin 20001)) None ''id'' ''ts'' = Inr (InsufficientCash, ?t)"
    by blast
  from b [where a = "Fin 100"] ok none
  have 4: "buy_btc ?t (Some (Fin 100)) None ''id'' ''ts'' = Inr (PriceUnavailable, ?t)"
    and 5: "sell_btc ?t ''1'' None None ''id'' ''ts'' = Inr (NothingToSell, ?t)"
    by blast+
  from s [where a = "Fin (- 5)" and sub_choice = "''3''"] two neg other
  have 6: "sell_btc ?h ''1'' None None ''id'' ''ts'' = Inr (PriceUnavailable, ?h)"
    and 7: "sell_btc ?h ''2'' None None ''id'' ''ts'' = Inr (InvalidInput, ?h)"
    and 8: "sell_btc ?h ''2'' (Some (Fin (- 5))) None ''id'' ''ts'' = Inr (InvalidAmount, ?h)"
    and 10: "sell_btc ?h ''3'' None None ''id'' ''ts'' = Inr (InvalidSelection, ?h)"
    by blast+
  from s [where a = "Fin 100" and sub_choice = "''3''"] two ok(1)
  have 9: "sell_btc ?h ''2'' (Some (Fin 100)) None ''id'' ''ts'' = Inr (PriceUnavailable, ?h)"
    by blast
  from 1 2 3 4 5 6 7 8 9 10 show ?thesis by blast
qed

text \<open>
  A buy of \<open>-5\<close> before the first tick: the amount is checked first, and the report is
  \<open>InvalidAmount\<close>.
\<close>

theorem trade_without_price_counterexample:
  "buy_btc (new_trader (Fin 20000) True) (Some (Fin (- 5))) None ''id'' ''ts''
     = Inr (InvalidAmount, new_trader (Fin 20000) True)
   \<and> buy_btc (new_trader (Fin 20000) True) (Some (Fin (- 5))) None ''id'' ''ts''
     \<noteq> Inr (PriceUnavailable, new_trader (Fin 20000) True)"
  by (simp add: method_defs py_le_def)

section \<open>Exceptions that leave the methods\<close>

text \<open>
  C6. With a latest price of 0.0 (a tick whose price text is \<open>0\<close>), a buy of 100
  out of 20000 in cash, and a sale for 100 out of two bitcoins, do not report anything:
  \<open>amount / price\<close> raises \<open>ZeroDivisionError\<close>, which \<open>except ValueError\<close> does
  not catch.
\<close>

theorem zero_price_raises:
  "buy_btc (new_trader (Fin 20000) True) (Some (Fin 100)) (Some (Fin 0)) ''id'' ''ts''
     = Inl ZeroDivisionError
   \<and> sell_btc ((new_trader (Fin 20000) True)\<lparr>btc_balance := Fin 2\<rparr>) ''2'' (Some (Fin 100))
       (Some (Fin 0)) ''id'' ''ts'' = Inl ZeroDivisionError"
  by (simp add: method_defs new_trader_simp py_le_def py_gt_def py_eq_def)

text \<open>
  The same holds of every buy and of every sale by amount that passes its checks, and
  \<open>view_total_pl\<close> raises it when \<open>starting_total\<close> is 0.
\<close>

lemma buy_btc_zero_price:
  "\<not> py_le amount (Fin 0) \<Longrightarrow> \<not> py_gt amount (cash_balance t) \<Longrightarrow>
   buy_btc t (Some amount) (Some (Fin 0)) uid now = Inl ZeroDivisionError"
  by (simp add: method_defs)

lemma sell_btc_zero_price:
  "\<not> py_eq (btc_balance t) (Fin 0) \<Longrightarrow> \<not> py_le amount (Fin 0) \<Longrightarrow>
   sell_btc t ''2'' (Some amount) (Some (Fin 0)) uid now = Inl ZeroDivisionError"
  by (simp add: method_defs)

lemma view_total_pl_zero_start:
  "starting_total t = Fin 0 \<Longrightarrow> view_total_pl t (Some price) = Inl ZeroDivisionError"
  by (simp add: view_total_pl_def get_current_btc_price_def Let_def)

text \<open>
  The other inputs are handled: text that is no number, and trading with no price,
  give a report and no exception.
\<close>

lemma no_exception_on_bad_text:
  "buy_btc t None latest uid now = Inr (InvalidInput, t)"
  "\<not> py_eq (btc_balance t) (Fin 0) \<Longrightarrow>
   sell_btc t ''2'' None latest uid now = Inr (InvalidInput, t)"
  by (simp_all add: method_defs)

section \<open>Messages of the feed\<close>

text \<open>
  C7. The message \<open>[1, 2]\<close> is a JSON list of length 2. Its second element is a
  number, so \<open>ticker_info['c']\<close> raises \<open>TypeError\<close>, which is none of the three
  exceptions that \<open>on_message\<close> catches: the exception leaves the handler.
\<close>

theorem on_message_type_error:
  "on_message str_float latest (Some (JArr [JInt 1, JInt 2])) = Inl TypeError"
  by (simp add: on_message_def py_bind_def)

text \<open>
  What the handler does on the other shapes. The tick of the specification sets the
  price to what \<open>float\<close> reads from \<open>65000.1\<close>; a JSON number in place of the
  numeric string sets the price as well.
\<close>

lemma on_message_tick:
  "on_message str_float latest
     (Some (JArr [JInt 340, JObj [(''c'', JArr [JStr ''65000.1'', JStr ''0.5''])]]))
   = Inr (case str_float ''65000.1'' of None \<Rightarrow> latest | Some p \<Rightarrow> Some p)"
  by (simp add: on_message_def py_bind_def split: option.split)

lemma on_message_number:
  "on_message str_float latest (Some (JArr [JInt 340, JObj [(''c'', JArr [JFloat p])]]))
   = Inr (Some p)"
  by (simp add: on_message_def py_bind_def)

text \<open>
  A text that is no JSON, a JSON value that is no list of two elements or more, and a
  ticker object without the field \<open>c\<close> leave the price as it was.
\<close>

lemma on_message_ignored:
  "on_message str_float latest None = Inr latest"
  "\<forall>xs. data \<noteq> JArr xs \<Longrightarrow> on_message str_float latest (Some data) = Inr latest"
  "length xs < 2 \<Longrightarrow> on_message str_float latest (Some (JArr xs)) = Inr latest"
  by (cases data; simp add: on_message_def)+

lemma on_message_missing_c:
  "map_of (rev kvs) ''c'' = None \<Longrightarrow>
   on_message str_float latest (Some (JArr (x # JObj kvs # rest))) = Inr latest"
  by (simp add: on_message_def py_bind_def)

section \<open>Reset\<close>




text \<open>Any other answer cancels.\<close>

lemma reset_trader_cancelled:
  "confirm \<noteq> ''y'' \<Longrightarrow> reset_trader t confirm = (ResetCancelled, t)"
  by (simp add: reset_trader_def)

section \<open>Balances below zero\<close>

text \<open>
  C9. The text \<open>nan\<close> is a float for Python, and NaN is neither \<open>\<le> 0\<close> nor
  \<open>> cash_balance\<close>. From the fresh trader with 20000 in cash and no bitcoin, at the
  price 50000, a buy of NaN passes both checks and is carried out: both balances become
  NaN, which is not \<open>\<ge> 0\<close>, and are saved so.
\<close>

theorem buy_btc_nan_breaks_balances:
  "py_le (Fin 0) (cash_balance (new_trader (Fin 20000) True))
   \<and> py_le (Fin 0) (btc_balance (new_trader (Fin 20000) True))
   \<and> py_lt (Fin 0) (Fin 50000)
   \<and> buy_btc (new_trader (Fin 20000) True) (Some NaN) (Some (Fin 50000)) ''id'' ''ts''
      = Inr (Bought,
          \<lparr>starting_cash = Fin 20000, starting_total = Fin 20000,
           cash_balance = NaN, btc_balance = NaN,
           transaction_history =
             [\<lparr>txn_id = ''id'', txn_type = ''buy'', amount_usd = NaN, btc = NaN,
               price_per_btc = Fin 50000, timestamp = ''ts''\<rparr>],
           data_file = Some (NaN, NaN, Fin 20000),
           history_file =
             Some [\<lparr>txn_id = ''id'', txn_type = ''buy'', amount_usd = NaN, btc = NaN,
                    price_per_btc = Fin 50000, timestamp = ''ts''\<rparr>],
           writable = True\<rparr>)
   \<and> \<not> py_le (Fin 0) NaN"
  by (simp add: method_defs new_trader_simp py_le_def py_gt_def py_eq_def py_sub_def)

text \<open>
  With amounts that are finite numbers the balances stay \<open>\<ge> 0\<close>: a buy keeps them
  so from any balances \<open>\<ge> 0\<close>, a sale from a finite bitcoin balance, a reset when
  \<open>starting_cash\<close> is \<open>\<ge> 0\<close>; the price is any float \<open>> 0\<close>.
\<close>

lemma buy_btc_keeps_nonneg:
  assumes "py_le (Fin 0) (cash_balance t)" and "py_le (Fin 0) (btc_balance t)"
    and "py_lt (Fin 0) price"
    and "buy_btc t (Some (Fin a)) (Some price) uid now = Inr (r, t')"
  shows "py_le (Fin 0) (cash_balance t') \<and> py_le (Fin 0) (btc_balance t')"
proof (cases "py_le (Fin a) (Fin 0) \<or> py_gt (Fin a) (cash_balance t)")
  case True
  with assms show ?thesis by (auto simp: buy_btc_def split: if_splits)
next
  case False
  then have a: "0 < a" and c: "\<not> py_gt (Fin a) (cash_balance t)"
    by (auto simp: py_le_def py_eq_def)
  from a have an: "py_le (Fin 0) (Fin a)" by (simp add: py_le_zero_cases)
  from truediv_nonneg [OF a assms(3)]
  obtain q where q: "py_truediv (Fin a) price = Inr q" and qn: "py_le (Fin 0) q" by blast
  from assms(4) False q
  have "cash_balance t' = py_sub (cash_balance t) (Fin a)"
    and "btc_balance t' = py_add (btc_balance t) q"
    by (auto simp: buy_btc_def get_current_btc_price_def Let_def saved_fields)
  with py_sub_nonneg [OF assms(1) an c] py_add_nonneg [OF assms(2) qn] show ?thesis by simp
qed

lemma sell_btc_keeps_nonneg:
  assumes cash: "py_le (Fin 0) (cash_balance t)" and b: "btc_balance t = Fin b" "0 \<le> b"
    and price: "py_lt (Fin 0) price"
    and typed: "typed = None \<or> (\<exists>a. typed = Some (Fin a))"
    and sell: "sell_btc t sub_choice typed (Some price) uid now = Inr (r, t')"
  shows "py_le (Fin 0) (cash_balance t') \<and> py_le (Fin 0) (btc_balance t')"
proof -
  have btc: "py_le (Fin 0) (btc_balance t)" using b by (simp add: py_le_zero_cases)
  have z: "py_le (Fin 0) (Fin 0)" by (simp add: py_le_zero_cases)
  show ?thesis
  proof (cases "b = 0")
    case True
    with sell b cash btc show ?thesis by (simp add: sell_btc_def py_eq_def)
  next
    case nz: False
    with b have bpos: "0 < b" by simp
    show ?thesis
    proof (cases "sub_choice = ''1''")
      case True
      with sell nz b
      have "btc_balance t' = Fin 0"
        and "cash_balance t' = py_add (cash_balance t) (py_mul (Fin b) price)"
        by (auto simp: sell_btc_def get_current_btc_price_def Let_def saved_fields py_eq_def)
      with py_add_nonneg [OF cash py_mul_nonneg [OF bpos price]] z show ?thesis by simp
    next
      case not1: False
      show ?thesis
      proof (cases "sub_choice = ''2'' \<and> (\<exists>a. typed = Some (Fin a) \<and> 0 < a)")
        case False
        with sell nz b not1 typed have "t' = t"
          by (auto simp: sell_btc_def py_eq_def py_le_def split: if_splits)
        with cash btc show ?thesis by simp
      next
        case True
        then obtain a where a: "sub_choice = ''2''" "typed = Some (Fin a)" "0 < a" by blast
        from a(3) have an: "py_le (Fin 0) (Fin a)" by (simp add: py_le_zero_cases)
        from truediv_nonneg [OF a(3) price]
        obtain q where q: "py_truediv (Fin a) price = Inr q" and qn: "py_le (Fin 0) q" by blast
        show ?thesis
        proof (cases "py_gt q (Fin b)")
          case True
          with sell nz b a q have "t' = t"
            by (simp add: sell_btc_def py_eq_def py_le_def get_current_btc_price_def)
          with cash btc show ?thesis by simp
        next
          case False
          with qn obtain y where y: "q = Fin y" "0 \<le> y"
            by (auto simp: py_le_zero_cases [of q] py_gt_def)
          from sell nz b a q False
          have "btc_balance t' = py_sub (Fin b) q"
            and "cash_balance t' = py_add (cash_balance t) (Fin a)"
            by (auto simp: sell_btc_def py_eq_def py_le_def get_current_btc_price_def Let_def
                saved_fields)
          with py_sub_nonneg [OF btc [unfolded b(1)] qn [unfolded y(1)] False [unfolded y(1)]]
            py_add_nonneg [OF cash an] y show ?thesis by simp
        qed
      qed
    qed
  qed
qed

lemma reset_trader_keeps_nonneg:
  assumes "py_le (Fin 0) (cash_balance t)" and "py_le (Fin 0) (btc_balance t)"
    and "py_le (Fin 0) (starting_cash t)"
    and "reset_trader t confirm = (r, t')"
  shows "py_le (Fin 0) (cash_balance t') \<and> py_le (Fin 0) (btc_balance t')"
  using assms
  by (auto simp: reset_trader_def saved_fields py_le_zero_cases split: if_splits)


section \<open>The notional value of a trade\<close>

text \<open>
  One rounding separates the two sides: \<open>btc\<close> is the rounded quotient of a buy and
  of a sale by amount, \<open>amount_usd\<close> the rounded product of a sale of everything.
\<close>

lemma quotient_notional:
  assumes "py_truediv (Fin u) (Fin p) = Inr (Fin b)" and "2 powi (- 1022) \<le> \<bar>u / p\<bar>"
  shows "\<bar>b * p - u\<bar> \<le> 2 powi (- 53) * \<bar>u\<bar>"
proof -
  from assms(1) have p: "p \<noteq> 0" and r: "round64 (u / p) = Fin b"
    by (auto split: if_splits)
  from round64_error [OF r assms(2)]
  have "\<bar>b - u / p\<bar> * \<bar>p\<bar> \<le> 2 powi (- 53) * \<bar>u / p\<bar> * \<bar>p\<bar>"
    by (simp only: mult_right_mono abs_ge_zero)
  moreover have "\<bar>b - u / p\<bar> * \<bar>p\<bar> = \<bar>b * p - u\<bar>"
    using p by (simp add: abs_mult [symmetric] field_simps)
  moreover have "2 powi (- 53) * \<bar>u / p\<bar> * \<bar>p\<bar> = 2 powi (- 53) * \<bar>u\<bar>"
    using p by (simp add: abs_divide)
  ultimately show ?thesis by simp
qed

lemma product_notional:
  assumes "py_mul (Fin b) (Fin p) = Fin u" and "2 powi (- 1022) \<le> \<bar>b * p\<bar>"
  shows "\<bar>b * p - u\<bar> \<le> 2 powi (- 53) * \<bar>b * p\<bar>"
proof -
  from assms(1) have r: "round64 (b * p) = Fin u" by simp
  from round64_error [OF r assms(2)] show ?thesis
    by (simp only: abs_minus_commute)
qed

lemma buy_btc_BoughtD:
  assumes "buy_btc t typed latest uid now = Inr (Bought, t')"
  shows "\<exists>amount price q. typed = Some amount \<and> latest = Some price
           \<and> py_truediv amount price = Inr q
           \<and> last (transaction_history t') =
               \<lparr>txn_id = uid, txn_type = ''buy'', amount_usd = amount, btc = q,
                price_per_btc = price, timestamp = now\<rparr>"
  using assms
  by (auto simp: method_defs split: option.splits if_splits sum.splits)

lemma sell_btc_SoldD:
  assumes "sell_btc t sub_choice typed latest uid now = Inr (Sold, t')"
  shows "\<exists>amount price q. typed = Some amount \<and> latest = Some price
           \<and> py_truediv amount price = Inr q
           \<and> last (transaction_history t') =
               \<lparr>txn_id = uid, txn_type = ''sell'', amount_usd = amount, btc = q,
                price_per_btc = price, timestamp = now\<rparr>"
  using assms
  by (auto simp: method_defs split: option.splits if_splits sum.splits)

lemma sell_btc_SoldAllD:
  assumes "sell_btc t sub_choice typed latest uid now = Inr (SoldAll, t')"
  shows "\<exists>price. latest = Some price
           \<and> last (transaction_history t') =
               \<lparr>txn_id = uid, txn_type = ''sell'',
                amount_usd = py_mul (btc_balance t) price, btc = btc_balance t,
                price_per_btc = price, timestamp = now\<rparr>"
  using assms
  by (auto simp: method_defs split: option.splits if_splits sum.splits)


text \<open>
  C10. The transaction recorded by a successful trade is the last one of the history.
  When its three figures are finite, with \<open>u\<close> the amount in USD, \<open>b\<close> the amount
  in bitcoin and \<open>p\<close> the price per bitcoin, \<open>p\<close> is the price the trade was
  executed at, and \<open>b * p\<close> and \<open>u\<close> differ by at most \<open>2 ^ -53\<close> times the larger
  of the two in magnitude, the rounding error of one binary64 operation, provided the
  rounded figure is not below the normal range: \<open>\<bar>u / p\<bar> \<ge> 2 ^ -1022\<close> for a buy
  and a sale by amount, \<open>\<bar>b * p\<bar> \<ge> 2 ^ -1022\<close> for a sale of everything. Here
  \<open>b * p\<close> is the exact product.
\<close>

theorem trade_notional:
  assumes usd: "amount_usd (last (transaction_history t')) = Fin u"
    and asset: "btc (last (transaction_history t')) = Fin b"
    and price: "price_per_btc (last (transaction_history t')) = Fin p"
    and trade:
      "(buy_btc t typed latest uid now = Inr (Bought, t')
          \<or> sell_btc t sub_choice typed latest uid now = Inr (Sold, t'))
         \<and> 2 powi (- 1022) \<le> \<bar>u / p\<bar>
       \<or> sell_btc t sub_choice typed latest uid now = Inr (SoldAll, t')
         \<and> 2 powi (- 1022) \<le> \<bar>b * p\<bar>"
  shows "latest = Some (Fin p)
     \<and> \<bar>b * p - u\<bar> \<le> 2 powi (- 53) * max \<bar>b * p\<bar> \<bar>u\<bar>"
proof -
  have m1: "2 powi (- 53) * \<bar>u\<bar> \<le> 2 powi (- 53) * max \<bar>b * p\<bar> \<bar>u\<bar>"
    by (simp add: mult_left_mono)
  have m2: "2 powi (- 53) * \<bar>b * p\<bar> \<le> 2 powi (- 53) * max \<bar>b * p\<bar> \<bar>u\<bar>"
    by (simp add: mult_left_mono)
  from trade consider
      (buy) "buy_btc t typed latest uid now = Inr (Bought, t')" "2 powi (- 1022) \<le> \<bar>u / p\<bar>"
    | (sell) "sell_btc t sub_choice typed latest uid now = Inr (Sold, t')"
        "2 powi (- 1022) \<le> \<bar>u / p\<bar>"
    | (all) "sell_btc t sub_choice typed latest uid now = Inr (SoldAll, t')"
        "2 powi (- 1022) \<le> \<bar>b * p\<bar>"
    by blast
  then show ?thesis
  proof cases
    case buy
    from buy_btc_BoughtD [OF buy(1)] usd asset price
    have "latest = Some (Fin p)" and "py_truediv (Fin u) (Fin p) = Inr (Fin b)" by auto
    with quotient_notional [OF _ buy(2)] m1 show ?thesis by force
  next
    case sell
    from sell_btc_SoldD [OF sell(1)] usd asset price
    have "latest = Some (Fin p)" and "py_truediv (Fin u) (Fin p) = Inr (Fin b)" by auto
    with quotient_notional [OF _ sell(2)] m1 show ?thesis by force
  next
    case all
    from sell_btc_SoldAllD [OF all(1)] usd asset price
    have "latest = Some (Fin p)" and "py_mul (Fin b) (Fin p) = Fin u" by auto
    with product_notional [OF _ all(2)] m2 show ?thesis by force
  qed
qed


text \<open>
  The two trades of the scenario: the buy of 10000 for the float nearest to 0.2, at
  50000, and the sale of all of it for 12000, at 60000.
\<close>

theorem trade_notional_witness:
  "buy_btc (new_trader (Fin 20000) True) (Some (Fin 10000)) (Some (Fin 50000)) ''id'' ''ts''
     = Inr (Bought,
         \<lparr>starting_cash = Fin 20000, starting_total = Fin 20000, cash_balance = Fin 10000,
          btc_balance = Fin (3602879701896397 / 18014398509481984),
          transaction_history = [\<lparr>txn_id = ''id'', txn_type = ''buy'', amount_usd = Fin 10000,
                btc = Fin (3602879701896397 / 18014398509481984),
                price_per_btc = Fin 50000, timestamp = ''ts''\<rparr>],
          data_file = Some (Fin 10000, Fin (3602879701896397 / 18014398509481984), Fin 20000),
          history_file = Some [\<lparr>txn_id = ''id'', txn_type = ''buy'', amount_usd = Fin 10000,
                btc = Fin (3602879701896397 / 18014398509481984),
                price_per_btc = Fin 50000, timestamp = ''ts''\<rparr>],
          writable = True\<rparr>)
   \<and> (2::real) powi (- 1022) \<le> \<bar>10000 / 50000\<bar>
   \<and> \<bar>3602879701896397 / 18014398509481984 * 50000 - 10000\<bar>
       \<le> 2 powi (- 53) * max \<bar>3602879701896397 / 18014398509481984 * 50000\<bar> \<bar>10000 :: real\<bar>
   \<and> sell_btc
         \<lparr>starting_cash = Fin 20000, starting_total = Fin 20000, cash_balance = Fin 10000,
          btc_balance = Fin (3602879701896397 / 18014398509481984),
          transaction_history = [\<lparr>txn_id = ''id'', txn_type = ''buy'', amount_usd = Fin 10000,
                btc = Fin (3602879701896397 / 18014398509481984),
                price_per_btc = Fin 50000, timestamp = ''ts''\<rparr>],
          data_file = Some (Fin 10000, Fin (3602879701896397 / 18014398509481984), Fin 20000),
          history_file = Some [\<lparr>txn_id = ''id'', txn_type = ''buy'', amount_usd = Fin 10000,
                btc = Fin (3602879701896397 / 18014398509481984),
                price_per_btc = Fin 50000, timestamp = ''ts''\<rparr>],
          writable = True\<rparr>
         ''1'' None (Some (Fin 60000)) ''id'' ''ts''
     = Inr (SoldAll,
         \<lparr>starting_cash = Fin 20000, starting_total = Fin 20000, cash_balance = Fin 22000,
          btc_balance = Fin 0,
          transaction_history = [\<lparr>txn_id = ''id'', txn_type = ''buy'', amount_usd = Fin 10000,
                btc = Fin (3602879701896397 / 18014398509481984),
                price_per_btc = Fin 50000, timestamp = ''ts''\<rparr>, \<lparr>txn_id = ''id'', txn_type = ''sell'', amount_usd = Fin 12000,
                btc = Fin (3602879701896397 / 18014398509481984),
                price_per_btc = Fin 60000, timestamp = ''ts''\<rparr>],
          data_file = Some (Fin 22000, Fin 0, Fin 20000),
          history_file = Some [\<lparr>txn_id = ''id'', txn_type = ''buy'', amount_usd = Fin 10000,
                btc = Fin (3602879701896397 / 18014398509481984),
                price_per_btc = Fin 50000, timestamp = ''ts''\<rparr>, \<lparr>txn_id = ''id'', txn_type = ''sell'', amount_usd = Fin 12000,
                btc = Fin (3602879701896397 / 18014398509481984),
                price_per_btc = Fin 60000, timestamp = ''ts''\<rparr>],
          writable = True\<rparr>)
   \<and> (2::real) powi (- 1022) \<le> \<bar>3602879701896397 / 18014398509481984 * 60000\<bar>
   \<and> \<bar>3602879701896397 / 18014398509481984 * 60000 - 12000\<bar>
       \<le> 2 powi (- 53) * max \<bar>3602879701896397 / 18014398509481984 * 60000\<bar> \<bar>12000 :: real\<bar>"
proof -
  let ?t = "new_trader (Fin 20000) True"
  let ?t' = "\<lparr>starting_cash = Fin 20000, starting_total = Fin 20000, cash_balance = Fin 10000,
          btc_balance = Fin (3602879701896397 / 18014398509481984),
          transaction_history = [\<lparr>txn_id = ''id'', txn_type = ''buy'', amount_usd = Fin 10000,
                btc = Fin (3602879701896397 / 18014398509481984),
                price_per_btc = Fin 50000, timestamp = ''ts''\<rparr>],
          data_file = Some (Fin 10000, Fin (3602879701896397 / 18014398509481984), Fin 20000),
          history_file = Some [\<lparr>txn_id = ''id'', txn_type = ''buy'', amount_usd = Fin 10000,
                btc = Fin (3602879701896397 / 18014398509481984),
                price_per_btc = Fin 50000, timestamp = ''ts''\<rparr>],
          writable = True\<rparr>"
  let ?t'' = "\<lparr>starting_cash = Fin 20000, starting_total = Fin 20000, cash_balance = Fin 22000,
          btc_balance = Fin 0,
          transaction_history = [\<lparr>txn_id = ''id'', txn_type = ''buy'', amount_usd = Fin 10000,
                btc = Fin (3602879701896397 / 18014398509481984),
                price_per_btc = Fin 50000, timestamp = ''ts''\<rparr>, \<lparr>txn_id = ''id'', txn_type = ''sell'', amount_usd = Fin 12000,
                btc = Fin (3602879701896397 / 18014398509481984),
                price_per_btc = Fin 60000, timestamp = ''ts''\<rparr>],
          data_file = Some (Fin 22000, Fin 0, Fin 20000),
          history_file = Some [\<lparr>txn_id = ''id'', txn_type = ''buy'', amount_usd = Fin 10000,
                btc = Fin (3602879701896397 / 18014398509481984),
                price_per_btc = Fin 50000, timestamp = ''ts''\<rparr>, \<lparr>txn_id = ''id'', txn_type = ''sell'', amount_usd = Fin 12000,
                btc = Fin (3602879701896397 / 18014398509481984),
                price_per_btc = Fin 60000, timestamp = ''ts''\<rparr>],
          writable = True\<rparr>"
  have b: "buy_btc ?t (Some (Fin 10000)) (Some (Fin 50000)) ''id'' ''ts'' = Inr (Bought, ?t')"
    by (simp add: method_defs new_trader_simp py_le_def py_gt_def py_eq_def py_sub_def
        round64_fifth round64_fifth_again round64_10000)
  have n: "(2::real) powi (- 1022) \<le> \<bar>10000 / 50000\<bar>"
    by (simp add: power_int_def power_divide)
  have u: "amount_usd (last (transaction_history ?t')) = Fin 10000" by simp
  have a: "btc (last (transaction_history ?t')) = Fin (3602879701896397 / 18014398509481984)"
    by simp
  have p: "price_per_btc (last (transaction_history ?t')) = Fin 50000" by simp
  from b n have d: "(buy_btc ?t (Some (Fin 10000)) (Some (Fin 50000)) ''id'' ''ts''
          = Inr (Bought, ?t')
        \<or> sell_btc ?t ''2'' (Some (Fin 10000)) (Some (Fin 50000)) ''id'' ''ts''
          = Inr (Sold, ?t'))
      \<and> 2 powi (- 1022) \<le> \<bar>(10000::real) / 50000\<bar>
    \<or> sell_btc ?t ''2'' (Some (Fin 10000)) (Some (Fin 50000)) ''id'' ''ts''
          = Inr (SoldAll, ?t')
      \<and> 2 powi (- 1022) \<le> \<bar>3602879701896397 / 18014398509481984 * (50000::real)\<bar>"
    by blast
  note 1 = trade_notional [OF u a p d]
  have s: "sell_btc ?t' ''1'' None (Some (Fin 60000)) ''id'' ''ts'' = Inr (SoldAll, ?t'')"
    by (simp add: method_defs py_eq_def round64_12000 round64_22000)
  have n': "(2::real) powi (- 1022) \<le> \<bar>3602879701896397 / 18014398509481984 * 60000\<bar>"
    by (simp add: power_int_def power_divide)
  have u': "amount_usd (last (transaction_history ?t'')) = Fin 12000" by simp
  have a': "btc (last (transaction_history ?t'')) = Fin (3602879701896397 / 18014398509481984)"
    by simp
  have p': "price_per_btc (last (transaction_history ?t'')) = Fin 60000" by simp
  from s n' have d':
    "(buy_btc ?t' None (Some (Fin 60000)) ''id'' ''ts'' = Inr (Bought, ?t'')
        \<or> sell_btc ?t' ''1'' None (Some (Fin 60000)) ''id'' ''ts'' = Inr (Sold, ?t''))
      \<and> 2 powi (- 1022) \<le> \<bar>(12000::real) / 60000\<bar>
    \<or> sell_btc ?t' ''1'' None (Some (Fin 60000)) ''id'' ''ts'' = Inr (SoldAll, ?t'')
      \<and> 2 powi (- 1022) \<le> \<bar>3602879701896397 / 18014398509481984 * (60000::real)\<bar>"
    by blast
  note 2 = trade_notional [OF u' a' p' d']
  from 1 2 b n s n' show ?thesis by blast
qed

text \<open>
  Two buys out of 20000 in cash. At an infinite price (a tick whose price text is
  \<open>inf\<close>) a buy of 100 records no bitcoin at all, and the float product of nothing
  and the price is NaN. At the price 4, a buy of \<open>2 ^ -1074\<close>, the least positive
  float, records no bitcoin either: the product 0 misses the amount by the whole of
  it.
\<close>

theorem trade_notional_counterexample:
  "buy_btc (new_trader (Fin 20000) True) (Some (Fin 100)) (Some PInf) ''id'' ''ts''
     = Inr (Bought,
         \<lparr>starting_cash = Fin 20000, starting_total = Fin 20000, cash_balance = Fin 19900,
          btc_balance = Fin 0,
          transaction_history =
            [\<lparr>txn_id = ''id'', txn_type = ''buy'', amount_usd = Fin 100, btc = Fin 0,
              price_per_btc = PInf, timestamp = ''ts''\<rparr>],
          data_file = Some (Fin 19900, Fin 0, Fin 20000),
          history_file =
            Some [\<lparr>txn_id = ''id'', txn_type = ''buy'', amount_usd = Fin 100, btc = Fin 0,
                   price_per_btc = PInf, timestamp = ''ts''\<rparr>],
          writable = True\<rparr>)
   \<and> py_mul (Fin 0) PInf = NaN
   \<and> buy_btc (new_trader (Fin 20000) True) (Some (Fin (1 / 2 ^ 1074))) (Some (Fin 4))
        ''id'' ''ts''
     = Inr (Bought,
         \<lparr>starting_cash = Fin 20000, starting_total = Fin 20000,
          cash_balance = py_sub (Fin 20000) (Fin (1 / 2 ^ 1074)),
          btc_balance = Fin 0,
          transaction_history =
            [\<lparr>txn_id = ''id'', txn_type = ''buy'', amount_usd = Fin (1 / 2 ^ 1074),
              btc = Fin 0, price_per_btc = Fin 4, timestamp = ''ts''\<rparr>],
          data_file = Some (py_sub (Fin 20000) (Fin (1 / 2 ^ 1074)), Fin 0, Fin 20000),
          history_file =
            Some [\<lparr>txn_id = ''id'', txn_type = ''buy'', amount_usd = Fin (1 / 2 ^ 1074),
                   btc = Fin 0, price_per_btc = Fin 4, timestamp = ''ts''\<rparr>],
          writable = True\<rparr>)
   \<and> \<not> \<bar>0 * 4 - 1 / 2 ^ 1074\<bar> \<le> 2 powi (- 53) * max \<bar>0 * 4\<bar> \<bar>1 / 2 ^ 1074 :: real\<bar>"
proof -
  have q: "py_truediv (Fin (1 / 2 ^ 1074)) (Fin 4) = Inr (Fin 0)"
    using round64_tiny by simp
  have 1: "buy_btc (new_trader (Fin 20000) True) (Some (Fin 100)) (Some PInf) ''id'' ''ts''
     = Inr (Bought,
         \<lparr>starting_cash = Fin 20000, starting_total = Fin 20000, cash_balance = Fin 19900,
          btc_balance = Fin 0,
          transaction_history =
            [\<lparr>txn_id = ''id'', txn_type = ''buy'', amount_usd = Fin 100, btc = Fin 0,
              price_per_btc = PInf, timestamp = ''ts''\<rparr>],
          data_file = Some (Fin 19900, Fin 0, Fin 20000),
          history_file =
            Some [\<lparr>txn_id = ''id'', txn_type = ''buy'', amount_usd = Fin 100, btc = Fin 0,
                   price_per_btc = PInf, timestamp = ''ts''\<rparr>],
          writable = True\<rparr>)"
    by (simp add: method_defs new_trader_simp py_le_def py_gt_def py_eq_def py_sub_def
        round64_19900 round64_0)
  have 2: "py_mul (Fin 0) PInf = NaN" by (simp add: inf_times_def)
  have c: "\<not> py_le (Fin (1 / 2 ^ 1074)) (Fin 0)" by (simp add: py_le_def py_eq_def)
  have g: "\<not> py_gt (Fin (1 / 2 ^ 1074)) (cash_balance (new_trader (Fin 20000) True))"
    by (simp add: new_trader_simp py_gt_def)
  have 3: "buy_btc (new_trader (Fin 20000) True) (Some (Fin (1 / 2 ^ 1074))) (Some (Fin 4))
        ''id'' ''ts''
     = Inr (Bought,
         \<lparr>starting_cash = Fin 20000, starting_total = Fin 20000,
          cash_balance = py_sub (Fin 20000) (Fin (1 / 2 ^ 1074)),
          btc_balance = Fin 0,
          transaction_history =
            [\<lparr>txn_id = ''id'', txn_type = ''buy'', amount_usd = Fin (1 / 2 ^ 1074),
              btc = Fin 0, price_per_btc = Fin 4, timestamp = ''ts''\<rparr>],
          data_file = Some (py_sub (Fin 20000) (Fin (1 / 2 ^ 1074)), Fin 0, Fin 20000),
          history_file =
            Some [\<lparr>txn_id = ''id'', txn_type = ''buy'', amount_usd = Fin (1 / 2 ^ 1074),
                   btc = Fin 0, price_per_btc = Fin 4, timestamp = ''ts''\<rparr>],
          writable = True\<rparr>)"
    unfolding buy_btc_def get_current_btc_price_def
    by (simp only: option.case if_False c g q sum.case Let_def)
       (simp add: new_trader_simp record_transaction_def save_history_def save_data_def
          round64_0)
  have 4: "\<not> \<bar>0 * 4 - 1 / 2 ^ 1074\<bar> \<le> 2 powi (- 53) * max \<bar>0 * 4\<bar> \<bar>1 / 2 ^ 1074 :: real\<bar>"
    by (simp add: power_int_def power_divide)
  from 1 2 3 4 show ?thesis by blast
qed

end
